theory Spec2Isabelle
  imports Complex_Main "HOL-Library.AList" "HOL-Library.Sublist"
begin

section \<open>The chat backend: context store and conversation service\<close>

text \<open>
  A shallow embedding of \<^verbatim>\<open>python-backend/chat_service.py\<close> and of the two chat
  entry points of \<^verbatim>\<open>python-backend/deepseek_client.py\<close>.

  Python values are modelled as follows. \<^verbatim>\<open>str\<close> is \<open>string\<close>, \<^verbatim>\<open>int\<close> is \<open>int\<close>,
  \<^verbatim>\<open>Optional[str]\<close> is \<open>string option\<close>. A \<^verbatim>\<open>datetime\<close> is an \<open>int\<close> (microseconds on
  the clock's axis). A \<^verbatim>\<open>float\<close> literal is the \<open>real\<close> it denotes; the code does no
  arithmetic on floats, it only passes literals on. A dataclass is a record. A
  \<^verbatim>\<open>dict\<close> is an association list in insertion order (\<open>map_of\<close> reads it,
  \<open>AList.update\<close> is item assignment, \<open>AList.delete\<close> is \<^verbatim>\<open>del\<close>).
\<close>

subsection \<open>What lies outside the program\<close>

text \<open>
  The code reads the clock (\<^verbatim>\<open>datetime.now()\<close>), draws identifiers
  (\<^verbatim>\<open>str(uuid.uuid4())\<close>) and posts a request to the remote model
  (\<^verbatim>\<open>DeepSeekClient.chat_completion\<close>). None of the three is a function of the program's
  state, so each is a stream fixed in advance in the record \<open>world\<close>: the \<open>n\<close>-th reading
  of the clock, the \<open>n\<close>-th identifier, the remote side's answer to the \<open>n\<close>-th request.
  No assumption is made on any of them. The requests posted so far are kept in
  \<open>requests\<close>, oldest first.
\<close>

type_synonym datetime = int

datatype exn = KeyError string | Exception string

datatype 'a outcome = Return 'a | Raise exn

record DeepSeekResponse =
  resp_content :: string
  resp_model :: string
  resp_thinking :: "string option"
  resp_usage :: "(string \<times> int) list option"

record completion_request =
  req_messages :: "(string \<times> string) list list"
  req_temperature :: real
  req_max_tokens :: int
  req_enable_thinking :: bool

record world =
  clock :: "nat \<Rightarrow> datetime"
  now_calls :: nat
  uuids :: "nat \<Rightarrow> string"
  uuid_calls :: nat
  network :: "nat \<Rightarrow> completion_request \<Rightarrow> DeepSeekResponse outcome"
  requests :: "completion_request list"

definition datetime_now :: "world \<Rightarrow> datetime \<times> world" where
  "datetime_now w = (clock w (now_calls w), w\<lparr>now_calls := Suc (now_calls w)\<rparr>)"

definition uuid4_str :: "world \<Rightarrow> string \<times> world" where
  "uuid4_str w = (uuids w (uuid_calls w), w\<lparr>uuid_calls := Suc (uuid_calls w)\<rparr>)"

text \<open>
  \<^verbatim>\<open>str(e)\<close> of an exception. For a plain \<^verbatim>\<open>Exception(msg)\<close> it is \<open>msg\<close>. For a
  \<^verbatim>\<open>KeyError(k)\<close> it is \<^verbatim>\<open>repr(k)\<close>, the key between single quotes (escapes inside
  the key are not modelled); no \<^verbatim>\<open>KeyError\<close> is ever raised by the code below, see
  \<open>add_message_returns\<close>.
\<close>

fun exn_str :: "exn \<Rightarrow> string" where
  "exn_str (Exception msg) = msg"
| "exn_str (KeyError k) = [CHR 0x27] @ k @ [CHR 0x27]"

subsection \<open>Messages and sessions\<close>

record ChatMessage =
  id' :: string
  role :: string
  content :: string
  thinking :: "string option"
  timestamp :: datetime
  tokens :: int

text \<open>
  The constructor with \<^verbatim>\<open>__post_init__\<close>: a message built without a timestamp reads
  the clock.
\<close>

definition ChatMessage_init ::
  "string \<Rightarrow> string \<Rightarrow> string \<Rightarrow> string option \<Rightarrow> datetime option \<Rightarrow> int \<Rightarrow> world
    \<Rightarrow> ChatMessage \<times> world" where
  "ChatMessage_init i r c th ts tk w =
     (case ts of
        None \<Rightarrow>
          (let (now, w1) = datetime_now w
           in (\<lparr>id' = i, role = r, content = c, thinking = th, timestamp = now, tokens = tk\<rparr>, w1))
      | Some t \<Rightarrow>
          (\<lparr>id' = i, role = r, content = c, thinking = th, timestamp = t, tokens = tk\<rparr>, w))"

record ChatSession =
  session_id :: string
  messages :: "ChatMessage list"
  created_at :: datetime
  last_active :: datetime
  max_context_tokens :: int

subsection \<open>ChatContextManager\<close>

record ChatContextManager =
  cm_max_context_tokens :: int
  sessions :: "(string \<times> ChatSession) list"

definition ChatContextManager_init :: "int \<Rightarrow> ChatContextManager" where
  "ChatContextManager_init limit = \<lparr>cm_max_context_tokens = limit, sessions = []\<rparr>"

text \<open>\<^verbatim>\<open>create_session\<close>: no test for an existing key; the assignment replaces it.\<close>

definition create_session ::
  "string option \<Rightarrow> world \<times> ChatContextManager \<Rightarrow> string \<times> world \<times> ChatContextManager" where
  "create_session sid_opt st =
     (let (w, cm) = st;
          (sid, w1) = (case sid_opt of None \<Rightarrow> uuid4_str w | Some s \<Rightarrow> (s, w));
          (t_created, w2) = datetime_now w1;
          (t_active, w3) = datetime_now w2;
          session = \<lparr>session_id = sid, messages = [], created_at = t_created,
                     last_active = t_active, max_context_tokens = cm_max_context_tokens cm\<rparr>
      in (sid, w3, cm\<lparr>sessions := AList.update sid session (sessions cm)\<rparr>))"

text \<open>\<^verbatim>\<open>_estimate_tokens\<close>: \<^verbatim>\<open>len(text) // 4\<close>.\<close>

definition estimate_tokens :: "string \<Rightarrow> int" where
  "estimate_tokens text' = int (length text') div 4"

text \<open>
  The \<^verbatim>\<open>while\<close> loop of \<^verbatim>\<open>_truncate_context\<close>. \<^verbatim>\<open>pop(0)\<close> runs only when the list
  has more than one element, so the empty case of the \<open>case\<close> is never taken.
\<close>

function truncate_loop :: "int \<Rightarrow> int \<Rightarrow> ChatMessage list \<Rightarrow> ChatMessage list" where
  "truncate_loop limit total_tokens msgs =
     (if total_tokens > limit \<and> length msgs > 1
      then (case msgs of
              [] \<Rightarrow> []
            | removed_msg # rest \<Rightarrow>
                truncate_loop limit (total_tokens - estimate_tokens (content removed_msg)) rest)
      else msgs)"
  by pat_completeness auto
termination
  by (relation "measure (\<lambda>(limit, total_tokens, msgs). length msgs)") auto

definition truncate_context ::
  "string \<Rightarrow> ChatContextManager \<Rightarrow> unit outcome \<times> ChatContextManager" where
  "truncate_context sid cm =
     (case map_of (sessions cm) sid of
        None \<Rightarrow> (Raise (KeyError sid), cm)
      | Some session \<Rightarrow>
          (let total_tokens =
                 foldl (\<lambda>t msg. t + estimate_tokens (content msg)) 0 (rev (messages session));
               kept = truncate_loop (cm_max_context_tokens cm) total_tokens (messages session)
           in (Return (), cm\<lparr>sessions :=
                 AList.update sid (session\<lparr>messages := kept\<rparr>) (sessions cm)\<rparr>)))"

definition add_message ::
  "string \<Rightarrow> ChatMessage \<Rightarrow> world \<times> ChatContextManager
    \<Rightarrow> unit outcome \<times> world \<times> ChatContextManager" where
  "add_message sid message st =
     (let (w1, cm1) =
            (if map_of (sessions (snd st)) sid = None
             then snd (create_session (Some sid) st) else st)
      in case map_of (sessions cm1) sid of
           None \<Rightarrow> (Raise (KeyError sid), w1, cm1)
         | Some session \<Rightarrow>
             (let (now, w2) = datetime_now w1;
                  session' = session\<lparr>messages := messages session @ [message],
                                     last_active := now\<rparr>;
                  cm2 = cm1\<lparr>sessions := AList.update sid session' (sessions cm1)\<rparr>;
                  (r, cm3) = truncate_context sid cm2
              in (r, w2, cm3)))"

definition get_context_messages ::
  "string \<Rightarrow> ChatContextManager \<Rightarrow> (string \<times> string) list list" where
  "get_context_messages sid cm =
     (case map_of (sessions cm) sid of
        None \<Rightarrow> []
      | Some session \<Rightarrow>
          map (\<lambda>msg. [(''role'', role msg), (''content'', content msg)]) (messages session))"

text \<open>
  \<^verbatim>\<open>cleanup_old_sessions\<close>: \<^verbatim>\<open>timedelta(hours=h)\<close> is \<open>h\<close> times 3600 million
  microseconds (Python refuses a \<^verbatim>\<open>timedelta\<close> beyond 999999999 days with an
  \<^verbatim>\<open>OverflowError\<close>; the model has no such bound).
\<close>

definition cleanup_old_sessions ::
  "int \<Rightarrow> world \<times> ChatContextManager \<Rightarrow> int \<times> world \<times> ChatContextManager" where
  "cleanup_old_sessions hours st =
     (let (w, cm) = st;
          (now, w1) = datetime_now w;
          cutoff = now - hours * 3600000000;
          expired_sessions =
            map fst (filter (\<lambda>(sid, session). last_active session < cutoff) (sessions cm))
      in (int (length expired_sessions), w1,
          cm\<lparr>sessions := foldl (\<lambda>al sid. AList.delete sid al) (sessions cm) expired_sessions\<rparr>))"


subsection \<open>DeepSeekClient\<close>

text \<open>
  \<^verbatim>\<open>chat_completion\<close> is the call that leaves the program: the request is recorded and
  the remote side's answer, a response or a raised exception, is taken from the world.
  The caller fills in \<^verbatim>\<open>temperature\<close>, \<^verbatim>\<open>max_tokens\<close> and \<^verbatim>\<open>enable_thinking\<close>; the
  signature's defaults are 0.7, 4000 and \<^verbatim>\<open>False\<close>.
\<close>

definition chat_completion ::
  "completion_request \<Rightarrow> world \<Rightarrow> DeepSeekResponse outcome \<times> world" where
  "chat_completion req w =
     (network w (length (requests w)) req, w\<lparr>requests := requests w @ [req]\<rparr>)"

text \<open>\<^verbatim>\<open>"\n".join(lines)\<close>, to write a multi-line literal line by line.\<close>

fun join_lines :: "string list \<Rightarrow> string" where
  "join_lines [] = []"
| "join_lines [l] = l"
| "join_lines (l # ls) = l @ CHR 0x0A # join_lines ls"

definition thinking_system_default :: string where
  "thinking_system_default =
     join_lines
     [''You are DeepSeek-V3.1, an advanced AI assistant. '',
      ''When thinking mode is enabled, you should:'',
      ''1. Break down complex problems step by step'',
      ''2. Show your reasoning process clearly'',
      ''3. Consider multiple approaches'',
      ''4. Explain your final decision'',
      '''',
      ''Think through the problem carefully before providing your final response.'']"

text \<open>
  The message lists that \<^verbatim>\<open>simple_chat\<close> and \<^verbatim>\<open>thinking_chat\<close> build. An empty
  or missing system prompt is falsy.
\<close>

definition simple_chat_messages :: "string \<Rightarrow> string option \<Rightarrow> (string \<times> string) list list" where
  "simple_chat_messages user_message system_prompt =
     (let messages0 = [];
          messages1 =
            (case system_prompt of
               None \<Rightarrow> messages0
             | Some sp \<Rightarrow>
                 if sp \<noteq> [] then messages0 @ [[(''role'', ''system''), (''content'', sp)]]
                 else messages0)
      in messages1 @ [[(''role'', ''user''), (''content'', user_message)]])"

definition simple_chat :: "string \<Rightarrow> string option \<Rightarrow> world \<Rightarrow> string outcome \<times> world" where
  "simple_chat user_message system_prompt w =
     (let (r, w1) =
            chat_completion
              \<lparr>req_messages = simple_chat_messages user_message system_prompt,
               req_temperature = 0.7, req_max_tokens = 4000, req_enable_thinking = False\<rparr> w
      in case r of
           Raise e \<Rightarrow> (Raise e, w1)
         | Return response \<Rightarrow> (Return (resp_content response), w1))"

definition thinking_chat_messages :: "string \<Rightarrow> string option \<Rightarrow> (string \<times> string) list list" where
  "thinking_chat_messages user_message system_prompt =
     (let thinking_system =
            (case system_prompt of
               None \<Rightarrow> thinking_system_default
             | Some sp \<Rightarrow> if sp \<noteq> [] then sp else thinking_system_default)
      in [[(''role'', ''system''), (''content'', thinking_system)],
          [(''role'', ''user''), (''content'', user_message)]])"

definition thinking_chat ::
  "string \<Rightarrow> string option \<Rightarrow> world \<Rightarrow> (string \<times> string) outcome \<times> world" where
  "thinking_chat user_message system_prompt w =
     (let (r, w1) =
            chat_completion
              \<lparr>req_messages = thinking_chat_messages user_message system_prompt,
               req_temperature = 0.3, req_max_tokens = 4000, req_enable_thinking = True\<rparr> w
      in case r of
           Raise e \<Rightarrow> (Raise e, w1)
         | Return response \<Rightarrow>
             (Return (resp_content response,
                (case resp_thinking response of
                   None \<Rightarrow> ''No thinking process available''
                 | Some t \<Rightarrow> if t \<noteq> [] then t else ''No thinking process available'')),
              w1))"

subsection \<open>ChatService\<close>

text \<open>
  The three prompt templates. A code point above 255 (the four emoji of the
  \<^verbatim>\<open>code_review\<close> prompt) is written as its UTF-8 bytes; a system prompt is only
  passed on, never measured or compared.
\<close>

record prompt_template =
  tmpl_system :: string
  tmpl_temperature :: real
  tmpl_thinking :: bool

definition fast_code_system :: string where
  "fast_code_system =
     join_lines
     [''You are an expert software engineer focused on fast, accurate code generation.'',
      ''                '',
      ''GUIDELINES:'',
      ''- Generate clean, working code immediately'',
      ''- Use best practices and established patterns'',
      ''- Include brief inline comments for clarity'',
      ''- Prioritize correctness and readability'',
      ''- Provide complete, runnable solutions'',
      '''',
      ''RESPONSE FORMAT:'',
      ''- Start with a brief explanation (1-2 lines)'',
      ''- Provide the complete code'',
      ''- End with usage instructions if needed'']"

definition deep_reasoning_system :: string where
  "deep_reasoning_system =
     join_lines
     [''You are an expert software architect and problem solver.'',
      '''',
      ''When analyzing complex problems:'',
      ''1. Break down the problem into core components'',
      ''2. Identify potential solutions and their trade-offs'',
      ''3. Consider scalability, maintainability, and performance'',
      ''4. Recommend the best approach with clear reasoning'',
      ''5. Provide implementation guidance'',
      '''',
      ''THINKING PROCESS:'',
      ''- Analyze requirements systematically'',
      ''- Consider edge cases and failure modes'',
      ''- Evaluate architectural implications'',
      ''- Think through the complete solution lifecycle'']"

definition code_review_system :: string where
  "code_review_system =
     join_lines
     [''You are a senior code reviewer focused on quality, security, and best practices.'',
      '''',
      ''REVIEW CRITERIA:'',
      ''1. **Code Quality**: Readability, maintainability, adherence to standards'',
      ''2. **Performance**: Efficiency, scalability, resource usage'',
      ''3. **Security**: Vulnerabilities, input validation, data handling'',
      ''4. **Architecture**: Design patterns, separation of concerns, modularity'',
      ''5. **Testing**: Testability, edge cases, error handling'',
      '''',
      ''REVIEW FORMAT:'',
      [CHR 0xE2, CHR 0x9C, CHR 0x85] @ '' **Strengths**: What'' @ [CHR 0x27] @ ''s done well'',
      [CHR 0xE2, CHR 0x9A, CHR 0xA0] @ [CHR 0xEF, CHR 0xB8, CHR 0x8F] @ '' **Issues**: Problems found (categorized by severity)'',
      [CHR 0xF0, CHR 0x9F, CHR 0x94, CHR 0xA7] @ '' **Recommendations**: Specific improvements with code examples'',
      [CHR 0xF0, CHR 0x9F, CHR 0x93, CHR 0x9D] @ '' **Summary**: Overall assessment and priority actions'']"


definition fast_code_template :: prompt_template where
  "fast_code_template =
     \<lparr>tmpl_system = fast_code_system, tmpl_temperature = 0.3, tmpl_thinking = False\<rparr>"

definition deep_reasoning_template :: prompt_template where
  "deep_reasoning_template =
     \<lparr>tmpl_system = deep_reasoning_system, tmpl_temperature = 0.2, tmpl_thinking = True\<rparr>"

definition code_review_template :: prompt_template where
  "code_review_template =
     \<lparr>tmpl_system = code_review_system, tmpl_temperature = 0.1, tmpl_thinking = True\<rparr>"

definition prompt_templates :: "(string \<times> prompt_template) list" where
  "prompt_templates =
     [(''fast_code'', fast_code_template),
      (''deep_reasoning'', deep_reasoning_template),
      (''code_review'', code_review_template)]"

text \<open>
  The service owns one \<^verbatim>\<open>ChatContextManager()\<close>, built with the default limit of 6000;
  it is the only attribute of the service that changes, so a state of the service is a
  state of that manager. The client is reached through the world.
\<close>

definition ChatService_init :: ChatContextManager where
  "ChatService_init = ChatContextManager_init 6000"

text \<open>Values of a result dictionary.\<close>

datatype py_value = PyNone | PyBool bool | PyInt int | PyStr string

text \<open>
  \<^verbatim>\<open>str.lower()\<close> on code points below 256: the letters A to Z and the Latin-1
  capitals (192 to 222 without the multiplication sign 215) move up by 32.
\<close>

definition lower_char :: "char \<Rightarrow> char" where
  "lower_char c =
     (let n = (of_char c :: nat)
      in if (65 \<le> n \<and> n \<le> 90) \<or> (192 \<le> n \<and> n \<le> 222 \<and> n \<noteq> 215)
         then char_of (n + 32) else c)"

definition lower :: "string \<Rightarrow> string" where
  "lower s = map lower_char s"

text \<open>\<^verbatim>\<open>needle in haystack\<close> on strings.\<close>

fun str_in :: "string \<Rightarrow> string \<Rightarrow> bool" where
  "str_in needle [] = (needle = [])"
| "str_in needle (c # cs) = (prefix needle (c # cs) \<or> str_in needle cs)"

text \<open>The \<^verbatim>\<open>except Exception as e\<close> branch of \<^verbatim>\<open>send_message\<close>.\<close>

definition send_message_except :: "exn \<Rightarrow> string \<Rightarrow> string \<Rightarrow> (string \<times> py_value) list" where
  "send_message_except e sid mode =
     (let error_response =
            [(''success'', PyBool False), (''error'', PyStr (exn_str e)),
             (''session_id'', PyStr sid), (''mode'', PyStr mode)];
          error_str = lower (exn_str e)
      in if str_in ''rate limit'' error_str \<or> str_in ''429'' error_str
         then AList.update ''retry_after'' (PyInt 60)
                (AList.update ''error_type'' (PyStr ''rate_limit'') error_response)
         else if str_in ''invalid api key'' error_str \<or> str_in ''401'' error_str
         then AList.update ''error_type'' (PyStr ''auth_error'') error_response
         else if str_in ''timeout'' error_str \<or> str_in ''504'' error_str
         then AList.update ''retry_after'' (PyInt 30)
                (AList.update ''error_type'' (PyStr ''timeout'') error_response)
         else AList.update ''error_type'' (PyStr ''unknown'') error_response)"

text \<open>The \<^verbatim>\<open>try\<close> block of \<^verbatim>\<open>send_message\<close>.\<close>

definition send_message_try ::
  "string \<Rightarrow> string \<Rightarrow> string \<Rightarrow> string option \<Rightarrow> world \<times> ChatContextManager
    \<Rightarrow> (string \<times> py_value) list outcome \<times> world \<times> ChatContextManager" where
  "send_message_try sid user_message mode custom_system_prompt st =
     (let (w1, cm1) =
            (if map_of (sessions (snd st)) sid = None
             then snd (create_session (Some sid) st) else st);
          (uid, w2) = uuid4_str w1;
          (user_msg, w3) =
            ChatMessage_init uid ''user'' user_message None None
              (estimate_tokens user_message) w2;
          (r1, w4, cm2) = add_message sid user_msg (w3, cm1)
      in case r1 of
           Raise e \<Rightarrow> (Raise e, w4, cm2)
         | Return _ \<Rightarrow>
             (let context_messages = get_context_messages sid cm2;
                  template =
                    (case map_of prompt_templates mode of
                       None \<Rightarrow> fast_code_template
                     | Some t \<Rightarrow> t);
                  system_prompt =
                    (case custom_system_prompt of
                       None \<Rightarrow> tmpl_system template
                     | Some c \<Rightarrow> if c \<noteq> [] then c else tmpl_system template);
                  context_messages' =
                    (if length context_messages = 1
                     then [(''role'', ''system''), (''content'', system_prompt)] # context_messages
                     else context_messages);
                  (r2, w5) =
                    (if tmpl_thinking template
                     then (case thinking_chat user_message (Some system_prompt) w4 of
                             (Raise e, w') \<Rightarrow> (Raise e, w')
                           | (Return (c, t), w') \<Rightarrow> (Return (c, Some t), w'))
                     else (case simple_chat user_message (Some system_prompt) w4 of
                             (Raise e, w') \<Rightarrow> (Raise e, w')
                           | (Return c, w') \<Rightarrow> (Return (c, None), w')))
              in case r2 of
                   Raise e \<Rightarrow> (Raise e, w5, cm2)
                 | Return (response_content, thinking') \<Rightarrow>
                     (let (aid, w6) = uuid4_str w5;
                          (assistant_msg, w7) =
                            ChatMessage_init aid ''assistant'' response_content thinking' None
                              (estimate_tokens response_content) w6;
                          (r3, w8, cm3) = add_message sid assistant_msg (w7, cm2)
                      in case r3 of
                           Raise e \<Rightarrow> (Raise e, w8, cm3)
                         | Return _ \<Rightarrow>
                             (Return
                                [(''success'', PyBool True),
                                 (''message_id'', PyStr (id' assistant_msg)),
                                 (''response'', PyStr response_content),
                                 (''thinking'',
                                    (case thinking' of None \<Rightarrow> PyNone | Some t \<Rightarrow> PyStr t)),
                                 (''mode'', PyStr mode),
                                 (''session_id'', PyStr sid),
                                 (''context_length'', PyInt (int (length context_messages'))),
                                 (''tokens_used'', PyInt (tokens assistant_msg))],
                              w8, cm3))))"

definition send_message ::
  "string \<Rightarrow> string \<Rightarrow> string \<Rightarrow> string option \<Rightarrow> world \<times> ChatContextManager
    \<Rightarrow> (string \<times> py_value) list \<times> world \<times> ChatContextManager" where
  "send_message sid user_message mode custom_system_prompt st =
     (case send_message_try sid user_message mode custom_system_prompt st of
        (Return result, st') \<Rightarrow> (result, st')
      | (Raise e, st') \<Rightarrow> (send_message_except e sid mode, st'))"

definition clear_session :: "string \<Rightarrow> ChatContextManager \<Rightarrow> bool \<times> ChatContextManager" where
  "clear_session sid cm =
     (if map_of (sessions cm) sid \<noteq> None
      then (True, cm\<lparr>sessions := AList.delete sid (sessions cm)\<rparr>)
      else (False, cm))"


subsection \<open>Driving the model\<close>

text \<open>
  Sequences of calls. A \<open>manager_call\<close> is a call of a state-changing method of
  \<^verbatim>\<open>ChatContextManager\<close>. A \<open>service_call\<close> is a call of a state-changing method of
  \<^verbatim>\<open>ChatService\<close>, or one of the two calls that \<^verbatim>\<open>chat_api.py\<close> makes on the service's
  manager (\<^verbatim>\<open>create_session\<close> and \<^verbatim>\<open>cleanup_old_sessions\<close>). The reading methods
  (\<^verbatim>\<open>get_context_messages\<close>, \<^verbatim>\<open>get_chat_history\<close>) change nothing and are not steps.
\<close>

datatype manager_call =
  CreateSession "string option"
| AddMessage string ChatMessage
| CleanupOldSessions int

fun manager_step ::
  "manager_call \<Rightarrow> world \<times> ChatContextManager \<Rightarrow> world \<times> ChatContextManager" where
  "manager_step (CreateSession sid_opt) st = snd (create_session sid_opt st)"
| "manager_step (AddMessage sid message) st = snd (add_message sid message st)"
| "manager_step (CleanupOldSessions hours) st = snd (cleanup_old_sessions hours st)"

definition manager_run ::
  "manager_call list \<Rightarrow> world \<times> ChatContextManager \<Rightarrow> world \<times> ChatContextManager" where
  "manager_run calls st = foldl (\<lambda>s c. manager_step c s) st calls"

datatype service_call =
  SendMessage string string string "string option"
| ClearSession string
| NewSession "string option"
| Cleanup int

fun service_step ::
  "service_call \<Rightarrow> world \<times> ChatContextManager \<Rightarrow> world \<times> ChatContextManager" where
  "service_step (SendMessage sid user_message mode custom) st =
     snd (send_message sid user_message mode custom st)"
| "service_step (ClearSession sid) st = (fst st, snd (clear_session sid (snd st)))"
| "service_step (NewSession sid_opt) st = snd (create_session sid_opt st)"
| "service_step (Cleanup hours) st = snd (cleanup_old_sessions hours st)"

definition service_run ::
  "service_call list \<Rightarrow> world \<times> ChatContextManager \<Rightarrow> world \<times> ChatContextManager" where
  "service_run calls st = foldl (\<lambda>s c. service_step c s) st calls"

text \<open>
  Concrete worlds for the examples: the clock counts its readings, the \<open>n\<close>-th
  identifier is \<open>m\<close> followed by \<open>n\<close> plus signs, and the remote side either always
  raises \<^verbatim>\<open>Exception(msg)\<close>, or always answers with the same text, or gives a listed
  answer to each request in turn and raises a connection error once the list is used up.
\<close>

definition always_raises :: "string \<Rightarrow> nat \<Rightarrow> completion_request \<Rightarrow> DeepSeekResponse outcome" where
  "always_raises msg n req = Raise (Exception msg)"

definition reply :: "string \<Rightarrow> DeepSeekResponse" where
  "reply answer =
     \<lparr>resp_content = answer, resp_model = ''deepseek-ai/DeepSeek-V3.1'',
      resp_thinking = None, resp_usage = None\<rparr>"

definition always_replies :: "string \<Rightarrow> nat \<Rightarrow> completion_request \<Rightarrow> DeepSeekResponse outcome" where
  "always_replies answer n req = Return (reply answer)"

definition scripted ::
  "DeepSeekResponse outcome list \<Rightarrow> nat \<Rightarrow> completion_request \<Rightarrow> DeepSeekResponse outcome" where
  "scripted answers n req =
     (if n < length answers then answers ! n
      else Raise (Exception ''Connection error. Check your internet connection''))"

definition demo_world ::
  "(nat \<Rightarrow> completion_request \<Rightarrow> DeepSeekResponse outcome) \<Rightarrow> world" where
  "demo_world net =
     \<lparr>clock = (\<lambda>n. int n), now_calls = 0, uuids = (\<lambda>n. ''m'' @ replicate n (CHR ''+'')),
      uuid_calls = 0, network = net, requests = []\<rparr>"

definition long_text :: string where
  "long_text = replicate 24004 (CHR ''x'')"

subsection \<open>Vocabulary of the statements\<close>

text \<open>The sum of the estimates of a list of messages.\<close>

definition total_estimate :: "ChatMessage list \<Rightarrow> int" where
  "total_estimate msgs = (\<Sum>msg\<leftarrow>msgs. estimate_tokens (content msg))"

text \<open>The history stored under an identifier; empty when there is no such session.\<close>

definition stored_messages :: "string \<Rightarrow> ChatContextManager \<Rightarrow> ChatMessage list" where
  "stored_messages sid cm =
     (case map_of (sessions cm) sid of None \<Rightarrow> [] | Some s \<Rightarrow> messages s)"

text \<open>A history after one more message and the eviction pass that follows it.\<close>

definition appended :: "int \<Rightarrow> ChatMessage list \<Rightarrow> ChatMessage \<Rightarrow> ChatMessage list" where
  "appended limit msgs message =
     truncate_loop limit (total_estimate (msgs @ [message])) (msgs @ [message])"

text \<open>The session that \<^verbatim>\<open>create_session\<close> stores.\<close>

definition fresh_session :: "string \<Rightarrow> world \<Rightarrow> ChatContextManager \<Rightarrow> ChatSession" where
  "fresh_session sid w cm =
     \<lparr>session_id = sid, messages = [], created_at = clock w (now_calls w),
      last_active = clock w (Suc (now_calls w)),
      max_context_tokens = cm_max_context_tokens cm\<rparr>"

text \<open>
  The session a turn works on (the stored one, or a fresh one), the number of clock
  readings its creation costs, and the manager once the session is there.
\<close>

definition base_session :: "string \<Rightarrow> world \<Rightarrow> ChatContextManager \<Rightarrow> ChatSession" where
  "base_session sid w cm =
     (case map_of (sessions cm) sid of None \<Rightarrow> fresh_session sid w cm | Some s \<Rightarrow> s)"

definition creation_reads :: "string \<Rightarrow> ChatContextManager \<Rightarrow> nat" where
  "creation_reads sid cm = (if map_of (sessions cm) sid = None then 2 else 0)"

definition ensured :: "string \<Rightarrow> world \<Rightarrow> ChatContextManager \<Rightarrow> ChatContextManager" where
  "ensured sid w cm =
     (if map_of (sessions cm) sid = None
      then cm\<lparr>sessions := AList.update sid (fresh_session sid w cm) (sessions cm)\<rparr>
      else cm)"

text \<open>
  The template and the system prompt a turn resolves, and the request it posts; that
  \<^verbatim>\<open>send_message\<close> posts exactly this request is lemma \<open>send_message_try_eq\<close>.
\<close>

definition turn_template :: "string \<Rightarrow> prompt_template" where
  "turn_template mode =
     (case map_of prompt_templates mode of None \<Rightarrow> fast_code_template | Some t \<Rightarrow> t)"

definition turn_system_prompt :: "string \<Rightarrow> string option \<Rightarrow> string" where
  "turn_system_prompt mode custom =
     (case custom of
        None \<Rightarrow> tmpl_system (turn_template mode)
      | Some c \<Rightarrow> if c \<noteq> [] then c else tmpl_system (turn_template mode))"

definition request_for :: "prompt_template \<Rightarrow> string \<Rightarrow> string \<Rightarrow> completion_request" where
  "request_for T sp user_message =
     (if tmpl_thinking T
      then \<lparr>req_messages = thinking_chat_messages user_message (Some sp),
            req_temperature = 0.3, req_max_tokens = 4000, req_enable_thinking = True\<rparr>
      else \<lparr>req_messages = simple_chat_messages user_message (Some sp),
            req_temperature = 0.7, req_max_tokens = 4000, req_enable_thinking = False\<rparr>)"

definition turn_request :: "string \<Rightarrow> string option \<Rightarrow> string \<Rightarrow> completion_request" where
  "turn_request mode custom user_message =
     request_for (turn_template mode) (turn_system_prompt mode custom) user_message"

text \<open>The two messages a turn builds, and the reasoning text it keeps.\<close>

definition user_msg_of :: "string \<Rightarrow> string \<Rightarrow> world \<Rightarrow> ChatContextManager \<Rightarrow> ChatMessage" where
  "user_msg_of sid um w cm =
     \<lparr>id' = uuids w (uuid_calls w), role = ''user'', content = um, thinking = None,
      timestamp = clock w (now_calls w + creation_reads sid cm),
      tokens = estimate_tokens um\<rparr>"

definition reply_thinking :: "prompt_template \<Rightarrow> DeepSeekResponse \<Rightarrow> string option" where
  "reply_thinking T resp =
     (if tmpl_thinking T
      then Some (case resp_thinking resp of
                   None \<Rightarrow> ''No thinking process available''
                 | Some t \<Rightarrow> if t \<noteq> [] then t else ''No thinking process available'')
      else None)"

definition assistant_msg_of ::
  "string \<Rightarrow> string \<Rightarrow> DeepSeekResponse \<Rightarrow> world \<Rightarrow> ChatContextManager \<Rightarrow> ChatMessage" where
  "assistant_msg_of sid mode resp w cm =
     \<lparr>id' = uuids w (Suc (uuid_calls w)), role = ''assistant'', content = resp_content resp,
      thinking = reply_thinking (turn_template mode) resp,
      timestamp = clock w (now_calls w + creation_reads sid cm + 2),
      tokens = estimate_tokens (resp_content resp)\<rparr>"

text \<open>
  The local list \<^verbatim>\<open>context_messages\<close> of \<^verbatim>\<open>send_message\<close> for a stored history, and
  the dictionary a successful turn returns.
\<close>

definition outbound_context :: "ChatMessage list \<Rightarrow> string \<Rightarrow> (string \<times> string) list list" where
  "outbound_context msgs system_prompt =
     (let context_messages =
            map (\<lambda>msg. [(''role'', role msg), (''content'', content msg)]) msgs
      in if length context_messages = 1
         then [(''role'', ''system''), (''content'', system_prompt)] # context_messages
         else context_messages)"

definition success_result ::
  "ChatMessage \<Rightarrow> string \<Rightarrow> string \<Rightarrow> nat \<Rightarrow> (string \<times> py_value) list" where
  "success_result assistant_msg mode sid n =
     [(''success'', PyBool True),
      (''message_id'', PyStr (id' assistant_msg)),
      (''response'', PyStr (content assistant_msg)),
      (''thinking'', (case thinking assistant_msg of None \<Rightarrow> PyNone | Some t \<Rightarrow> PyStr t)),
      (''mode'', PyStr mode),
      (''session_id'', PyStr sid),
      (''context_length'', PyInt (int n)),
      (''tokens_used'', PyInt (tokens assistant_msg))]"

text \<open>Every stored session carries the manager's limit as its own.\<close>

definition budget_consistent :: "ChatContextManager \<Rightarrow> bool" where
  "budget_consistent cm =
     (\<forall>(sid, s) \<in> set (sessions cm). max_context_tokens s = cm_max_context_tokens cm)"

text \<open>Every stored message is a user turn or an assistant turn.\<close>

definition roles_ok :: "ChatContextManager \<Rightarrow> bool" where
  "roles_ok cm =
     (\<forall>(sid, s) \<in> set (sessions cm). \<forall>m \<in> set (messages s).
        role m = ''user'' \<or> role m = ''assistant'')"

section \<open>Supporting lemmas\<close>

subsection \<open>The eviction loop\<close>

declare truncate_loop.simps [simp del]

lemma estimate_tokens_nonneg: "0 \<le> estimate_tokens s"
  by (simp add: estimate_tokens_def)

lemma foldl_estimate:
  "foldl (\<lambda>t msg. t + estimate_tokens (content msg)) a msgs = a + total_estimate msgs"
  by (induction msgs arbitrary: a) (simp_all add: total_estimate_def)

lemma total_estimate_rev: "total_estimate (rev msgs) = total_estimate msgs"
  by (simp add: total_estimate_def rev_map [symmetric])

lemma total_estimate_append:
  "total_estimate (xs @ ys) = total_estimate xs + total_estimate ys"
  by (simp add: total_estimate_def)

lemma sum_tokens_estimates:
  assumes "\<forall>msg \<in> set msgs. tokens msg = estimate_tokens (content msg)"
  shows "(\<Sum>msg\<leftarrow>msgs. tokens msg) = total_estimate msgs"
  using assms by (induction msgs) (simp_all add: total_estimate_def)

lemma truncate_loop_stop:
  "\<not> (tot > limit \<and> length msgs > 1) \<Longrightarrow> truncate_loop limit tot msgs = msgs"
  by (subst truncate_loop.simps) auto

lemma truncate_loop_step:
  "tot > limit \<Longrightarrow> rest \<noteq> [] \<Longrightarrow>
   truncate_loop limit tot (m # rest) =
   truncate_loop limit (tot - estimate_tokens (content m)) rest"
  by (subst truncate_loop.simps) simp

lemma truncate_loop_budget:
  "msgs \<noteq> [] \<Longrightarrow> tot = total_estimate msgs \<Longrightarrow>
   total_estimate (truncate_loop limit tot msgs) \<le> limit
   \<or> length (truncate_loop limit tot msgs) = 1"
proof (induction limit tot msgs rule: truncate_loop.induct)
  case (1 limit tot msgs)
  show ?case
  proof (cases "tot > limit \<and> length msgs > 1")
    case False
    then have "truncate_loop limit tot msgs = msgs"
      by (rule truncate_loop_stop)
    moreover have "tot \<le> limit \<or> length msgs = 1"
      using False "1.prems"(1) by (cases msgs) auto
    ultimately show ?thesis
      using "1.prems"(2) by auto
  next
    case True
    then obtain m rest where msgs: "msgs = m # rest" and rest: "rest \<noteq> []"
      by (cases msgs) auto
    have "tot - estimate_tokens (content m) = total_estimate rest"
      using "1.prems" msgs by (simp add: total_estimate_def)
    from "1.IH" [OF True msgs rest this] True msgs rest show ?thesis
      by (simp add: truncate_loop_step)
  qed
qed

lemma truncate_loop_last:
  "msgs \<noteq> [] \<Longrightarrow>
   truncate_loop limit tot msgs \<noteq> [] \<and> last (truncate_loop limit tot msgs) = last msgs"
proof (induction limit tot msgs rule: truncate_loop.induct)
  case (1 limit tot msgs)
  show ?case
  proof (cases "tot > limit \<and> length msgs > 1")
    case False
    with "1.prems" show ?thesis
      by (simp add: truncate_loop_stop)
  next
    case True
    then obtain m rest where msgs: "msgs = m # rest" and rest: "rest \<noteq> []"
      by (cases msgs) auto
    from "1.IH" [OF True msgs rest] True msgs rest show ?thesis
      by (simp add: truncate_loop_step)
  qed
qed

lemma truncate_loop_suffix: "suffix (truncate_loop limit tot msgs) msgs"
proof (induction limit tot msgs rule: truncate_loop.induct)
  case (1 limit tot msgs)
  show ?case
  proof (cases "tot > limit \<and> length msgs > 1")
    case False
    then show ?thesis
      by (simp add: truncate_loop_stop)
  next
    case True
    then obtain m rest where msgs: "msgs = m # rest" and rest: "rest \<noteq> []"
      by (cases msgs) auto
    from "1.IH" [OF True msgs] True msgs rest show ?thesis
      by (simp add: truncate_loop_step suffix_Cons)
  qed
qed

lemma truncate_loop_single: "truncate_loop limit tot [m] = [m]"
  by (simp add: truncate_loop_stop)

lemma appended_budget:
  "total_estimate (appended limit msgs m) \<le> limit \<or> length (appended limit msgs m) = 1"
  unfolding appended_def by (rule truncate_loop_budget) simp_all

lemma appended_last:
  "appended limit msgs m \<noteq> [] \<and> last (appended limit msgs m) = m"
  unfolding appended_def using truncate_loop_last [of "msgs @ [m]"] by simp

lemma appended_empty: "appended limit [] m = [m]"
  by (simp add: appended_def truncate_loop_single)

lemma appended_suffix: "suffix (appended limit msgs m) (msgs @ [m])"
  unfolding appended_def by (rule truncate_loop_suffix)

lemma appended_fits:
  "total_estimate (msgs @ [m]) \<le> limit \<Longrightarrow> appended limit msgs m = msgs @ [m]"
  by (simp add: appended_def truncate_loop_stop)

lemma length_appended: "length (appended limit msgs m) \<le> length msgs + 1"
  using suffix_length_le [OF appended_suffix [of limit msgs m]] by simp

lemma set_appended: "set (appended limit msgs m) \<subseteq> insert m (set msgs)"
proof -
  have "suffix (appended limit msgs m) (msgs @ [m])"
    unfolding appended_def by (rule truncate_loop_suffix)
  then have "set (appended limit msgs m) \<subseteq> set (msgs @ [m])"
    by (rule set_mono_suffix)
  then show ?thesis by auto
qed

subsection \<open>Association lists\<close>

lemma set_update_subset: "set (AList.update k v al) \<subseteq> insert (k, v) (set al)"
  by (induction al) auto

lemma set_delete_subset: "set (AList.delete k al) \<subseteq> set al"
  by (induction al) auto

lemma set_foldl_delete_subset:
  "set (foldl (\<lambda>al sid. AList.delete sid al) al ks) \<subseteq> set al"
proof (induction ks arbitrary: al)
  case Nil
  show ?case by simp
next
  case (Cons k ks)
  have "set (foldl (\<lambda>al sid. AList.delete sid al) (AList.delete k al) ks)
          \<subseteq> set (AList.delete k al)"
    by (rule Cons.IH)
  also have "\<dots> \<subseteq> set al"
    by (rule set_delete_subset)
  finally show ?case by simp
qed

subsection \<open>The operations of the manager\<close>

lemma create_session_Some:
  "create_session (Some sid) (w, cm) =
     (sid, w\<lparr>now_calls := Suc (Suc (now_calls w))\<rparr>,
      cm\<lparr>sessions := AList.update sid (fresh_session sid w cm) (sessions cm)\<rparr>)"
  by (simp add: create_session_def datetime_now_def fresh_session_def)

lemma create_session_None:
  "create_session None (w, cm) =
     (uuids w (uuid_calls w),
      w\<lparr>uuid_calls := Suc (uuid_calls w), now_calls := Suc (Suc (now_calls w))\<rparr>,
      cm\<lparr>sessions := AList.update (uuids w (uuid_calls w))
            (fresh_session (uuids w (uuid_calls w)) w cm) (sessions cm)\<rparr>)"
  by (simp add: create_session_def datetime_now_def uuid4_str_def fresh_session_def)

lemma truncate_context_present:
  "map_of (sessions cm) sid = Some s \<Longrightarrow>
   truncate_context sid cm =
     (Return (),
      cm\<lparr>sessions := AList.update sid
            (s\<lparr>messages := truncate_loop (cm_max_context_tokens cm)
                  (total_estimate (messages s)) (messages s)\<rparr>) (sessions cm)\<rparr>)"
  by (simp add: truncate_context_def foldl_estimate total_estimate_rev)

lemma add_message_present:
  "map_of (sessions cm) sid = Some s \<Longrightarrow>
   add_message sid message (w, cm) =
     (Return (), w\<lparr>now_calls := Suc (now_calls w)\<rparr>,
      cm\<lparr>sessions := AList.update sid
            (s\<lparr>last_active := clock w (now_calls w),
               messages := appended (cm_max_context_tokens cm) (messages s) message\<rparr>) (sessions cm)\<rparr>)"
  by (simp add: add_message_def datetime_now_def truncate_context_present AList.update_conv'
      appended_def)

lemma add_message_absent:
  "map_of (sessions cm) sid = None \<Longrightarrow>
   add_message sid message (w, cm) =
     (Return (), w\<lparr>now_calls := Suc (Suc (Suc (now_calls w)))\<rparr>,
      cm\<lparr>sessions := AList.update sid
            ((fresh_session sid w cm)
               \<lparr>last_active := clock w (Suc (Suc (now_calls w))),
                messages := appended (cm_max_context_tokens cm) [] message\<rparr>) (sessions cm)\<rparr>)"
  by (simp add: add_message_def datetime_now_def truncate_context_present AList.update_conv'
      appended_def create_session_Some fresh_session_def)

lemma stored_messages_base: "messages (base_session sid w cm) = stored_messages sid cm"
  by (simp add: base_session_def stored_messages_def fresh_session_def split: option.splits)

lemma base_session_cases:
  "base_session sid w cm = fresh_session sid w cm \<or> (sid, base_session sid w cm) \<in> set (sessions cm)"
  by (auto simp: base_session_def split: option.splits dest: map_of_SomeD)

lemma add_message_base:
  "add_message sid message (w, cm) =
     (Return (), w\<lparr>now_calls := now_calls w + creation_reads sid cm + 1\<rparr>,
      cm\<lparr>sessions := AList.update sid
            ((base_session sid w cm)
               \<lparr>last_active := clock w (now_calls w + creation_reads sid cm),
                messages := appended (cm_max_context_tokens cm)
                              (stored_messages sid cm) message\<rparr>) (sessions cm)\<rparr>)"
proof (cases "map_of (sessions cm) sid")
  case None
  then show ?thesis
    by (simp add: add_message_absent creation_reads_def base_session_def stored_messages_def
        fresh_session_def)
next
  case (Some s)
  then show ?thesis
    by (simp add: add_message_present creation_reads_def base_session_def stored_messages_def)
qed

lemma add_message_returns: "fst (add_message sid message st) = Return ()"
  by (cases st) (simp add: add_message_base)

lemma add_message_stored:
  "\<exists>s. map_of (sessions (snd (snd (add_message sid message (w, cm))))) sid = Some s
       \<and> messages s = appended (cm_max_context_tokens cm) (stored_messages sid cm) message
       \<and> max_context_tokens s = max_context_tokens (base_session sid w cm)"
  by (simp add: add_message_base AList.update_conv')

lemma get_context_messages_stored:
  "get_context_messages sid cm =
     map (\<lambda>msg. [(''role'', role msg), (''content'', content msg)]) (stored_messages sid cm)"
  by (simp add: get_context_messages_def stored_messages_def split: option.splits)

lemma cleanup_sessions_subset:
  "set (sessions (snd (snd (cleanup_old_sessions hours st)))) \<subseteq> set (sessions (snd st))"
  by (cases st)
     (simp add: cleanup_old_sessions_def datetime_now_def set_foldl_delete_subset split_def
        Let_def)

lemma cleanup_limit:
  "cm_max_context_tokens (snd (snd (cleanup_old_sessions hours st))) =
   cm_max_context_tokens (snd st)"
  by (cases st) (simp add: cleanup_old_sessions_def datetime_now_def split_def Let_def)

lemma manager_run_snoc:
  "manager_run (calls @ [c]) st = manager_step c (manager_run calls st)"
  by (simp add: manager_run_def)

subsection \<open>One turn of the service\<close>

lemma ensure_session:
  "(if map_of (sessions cm) sid = None
    then snd (create_session (Some sid) (w, cm)) else (w, cm)) =
   (w\<lparr>now_calls := now_calls w + creation_reads sid cm\<rparr>, ensured sid w cm)"
  by (simp add: create_session_Some creation_reads_def ensured_def)

lemma lookup_ensured [simp]:
  "map_of (sessions (ensured sid w cm)) sid = Some (base_session sid w cm)"
  by (simp add: ensured_def base_session_def AList.update_conv' split: option.splits)

lemma limit_ensured [simp]:
  "cm_max_context_tokens (ensured sid w cm) = cm_max_context_tokens cm"
  by (simp add: ensured_def)

lemma update_ensured [simp]:
  "(ensured sid w cm)\<lparr>sessions := AList.update sid s (sessions (ensured sid w cm))\<rparr> =
   cm\<lparr>sessions := AList.update sid s (sessions cm)\<rparr>"
  by (simp add: ensured_def)

lemma add_message_ensured:
  "add_message sid message (w', ensured sid w cm) =
     (Return (), w'\<lparr>now_calls := Suc (now_calls w')\<rparr>,
      cm\<lparr>sessions := AList.update sid
            ((base_session sid w cm)
               \<lparr>last_active := clock w' (now_calls w'),
                messages := appended (cm_max_context_tokens cm)
                              (stored_messages sid cm) message\<rparr>) (sessions cm)\<rparr>)"
proof -
  have "messages (base_session sid w cm) = stored_messages sid cm"
    by (simp add: base_session_def stored_messages_def fresh_session_def split: option.splits)
  then show ?thesis
    by (simp add: add_message_present [OF lookup_ensured])
qed

lemma call_model:
  "(if tmpl_thinking T
    then (case thinking_chat um (Some sp) w of
            (Raise e, w') \<Rightarrow> (Raise e, w')
          | (Return (c, t), w') \<Rightarrow> (Return (c, Some t), w'))
    else (case simple_chat um (Some sp) w of
            (Raise e, w') \<Rightarrow> (Raise e, w')
          | (Return c, w') \<Rightarrow> (Return (c, None), w'))) =
   (case network w (length (requests w)) (request_for T sp um) of
      Raise e \<Rightarrow> (Raise e, w\<lparr>requests := requests w @ [request_for T sp um]\<rparr>)
    | Return resp \<Rightarrow>
        (Return (resp_content resp, reply_thinking T resp),
         w\<lparr>requests := requests w @ [request_for T sp um]\<rparr>))"
  by (simp add: thinking_chat_def simple_chat_def chat_completion_def request_for_def
      reply_thinking_def split: outcome.splits)

lemma send_message_try_eq:
  "send_message_try sid um mode custom (w, cm) =
     (let k = creation_reads sid cm;
          limit = cm_max_context_tokens cm;
          msgs1 = appended limit (stored_messages sid cm) (user_msg_of sid um w cm);
          req = turn_request mode custom um
      in case network w (length (requests w)) req of
           Raise e \<Rightarrow>
             (Raise e,
              w\<lparr>now_calls := now_calls w + k + 2, uuid_calls := Suc (uuid_calls w),
                requests := requests w @ [req]\<rparr>,
              cm\<lparr>sessions := AList.update sid
                    ((base_session sid w cm)
                       \<lparr>last_active := clock w (now_calls w + k + 1), messages := msgs1\<rparr>)
                    (sessions cm)\<rparr>)
         | Return resp \<Rightarrow>
             (Return (success_result (assistant_msg_of sid mode resp w cm) mode sid
                        (length (outbound_context msgs1 (turn_system_prompt mode custom)))),
              w\<lparr>now_calls := now_calls w + k + 4, uuid_calls := Suc (Suc (uuid_calls w)),
                requests := requests w @ [req]\<rparr>,
              cm\<lparr>sessions := AList.update sid
                    ((base_session sid w cm)
                       \<lparr>last_active := clock w (now_calls w + k + 3),
                        messages := appended limit msgs1
                                      (assistant_msg_of sid mode resp w cm)\<rparr>)
                    (sessions cm)\<rparr>))"
  unfolding send_message_try_def turn_request_def turn_system_prompt_def turn_template_def
    assistant_msg_of_def
  by (simp add: ensure_session uuid4_str_def ChatMessage_init_def datetime_now_def
      add_message_ensured add_message_present call_model Let_def get_context_messages_def
      AList.update_conv' user_msg_of_def success_result_def outbound_context_def
      numeral_3_eq_3 split: outcome.splits)

lemma send_message_eq:
  "send_message sid um mode custom (w, cm) =
     (let k = creation_reads sid cm;
          limit = cm_max_context_tokens cm;
          msgs1 = appended limit (stored_messages sid cm) (user_msg_of sid um w cm);
          req = turn_request mode custom um
      in case network w (length (requests w)) req of
           Raise e \<Rightarrow>
             (send_message_except e sid mode,
              w\<lparr>now_calls := now_calls w + k + 2, uuid_calls := Suc (uuid_calls w),
                requests := requests w @ [req]\<rparr>,
              cm\<lparr>sessions := AList.update sid
                    ((base_session sid w cm)
                       \<lparr>last_active := clock w (now_calls w + k + 1), messages := msgs1\<rparr>)
                    (sessions cm)\<rparr>)
         | Return resp \<Rightarrow>
             (success_result (assistant_msg_of sid mode resp w cm) mode sid
                (length (outbound_context msgs1 (turn_system_prompt mode custom))),
              w\<lparr>now_calls := now_calls w + k + 4, uuid_calls := Suc (Suc (uuid_calls w)),
                requests := requests w @ [req]\<rparr>,
              cm\<lparr>sessions := AList.update sid
                    ((base_session sid w cm)
                       \<lparr>last_active := clock w (now_calls w + k + 3),
                        messages := appended limit msgs1
                                      (assistant_msg_of sid mode resp w cm)\<rparr>)
                    (sessions cm)\<rparr>))"
  by (simp add: send_message_def send_message_try_eq Let_def split: outcome.splits)

lemma send_message_raise:
  assumes "network w (length (requests w)) (turn_request mode custom um) = Raise e"
  shows "fst (send_message sid um mode custom (w, cm)) = send_message_except e sid mode"
    and "stored_messages sid (snd (snd (send_message sid um mode custom (w, cm)))) =
         appended (cm_max_context_tokens cm) (stored_messages sid cm) (user_msg_of sid um w cm)"
    and "requests (fst (snd (send_message sid um mode custom (w, cm)))) =
         requests w @ [turn_request mode custom um]"
  using assms by (simp_all add: send_message_eq Let_def stored_messages_def AList.update_conv')

lemma send_message_return:
  assumes "network w (length (requests w)) (turn_request mode custom um) = Return resp"
  shows "fst (send_message sid um mode custom (w, cm)) =
         success_result (assistant_msg_of sid mode resp w cm) mode sid
           (length (outbound_context
              (appended (cm_max_context_tokens cm) (stored_messages sid cm)
                 (user_msg_of sid um w cm))
              (turn_system_prompt mode custom)))"
    and "stored_messages sid (snd (snd (send_message sid um mode custom (w, cm)))) =
         appended (cm_max_context_tokens cm)
           (appended (cm_max_context_tokens cm) (stored_messages sid cm)
              (user_msg_of sid um w cm))
           (assistant_msg_of sid mode resp w cm)"
    and "requests (fst (snd (send_message sid um mode custom (w, cm)))) =
         requests w @ [turn_request mode custom um]"
  using assms by (simp_all add: send_message_eq Let_def stored_messages_def AList.update_conv')

lemma send_message_world:
  "network (fst (snd (send_message sid um mode custom (w, cm)))) = network w"
  "clock (fst (snd (send_message sid um mode custom (w, cm)))) = clock w"
  "uuids (fst (snd (send_message sid um mode custom (w, cm)))) = uuids w"
  "requests (fst (snd (send_message sid um mode custom (w, cm)))) =
     requests w @ [turn_request mode custom um]"
  "cm_max_context_tokens (snd (snd (send_message sid um mode custom (w, cm)))) =
     cm_max_context_tokens cm"
  by (simp_all add: send_message_eq Let_def split: outcome.splits)

lemma length_outbound_context:
  "length (outbound_context msgs sp) = (if length msgs = 1 then 2 else length msgs)"
  by (simp add: outbound_context_def Let_def)

lemma failed_turn_fits:
  assumes "network w (length (requests w)) (turn_request mode custom um) = Raise e"
    and "total_estimate (stored_messages sid cm) + estimate_tokens um \<le> cm_max_context_tokens cm"
  shows "stored_messages sid (snd (snd (send_message sid um mode custom (w, cm)))) =
         stored_messages sid cm @ [user_msg_of sid um w cm]"
proof -
  have "total_estimate (stored_messages sid cm @ [user_msg_of sid um w cm])
          \<le> cm_max_context_tokens cm"
    using assms(2) by (simp add: total_estimate_append) (simp add: total_estimate_def user_msg_of_def)
  then show ?thesis
    by (simp add: send_message_raise(2) [OF assms(1)] appended_fits)
qed

lemma successful_turn_fits:
  assumes "network w (length (requests w)) (turn_request mode custom um) = Return resp"
    and "total_estimate (stored_messages sid cm) + estimate_tokens um
           + estimate_tokens (resp_content resp) \<le> cm_max_context_tokens cm"
  shows "stored_messages sid (snd (snd (send_message sid um mode custom (w, cm)))) =
         stored_messages sid cm @ [user_msg_of sid um w cm, assistant_msg_of sid mode resp w cm]"
    and "fst (send_message sid um mode custom (w, cm)) =
         success_result (assistant_msg_of sid mode resp w cm) mode sid
           (if stored_messages sid cm = [] then 2 else length (stored_messages sid cm) + 1)"
proof -
  let ?u = "user_msg_of sid um w cm"
  let ?a = "assistant_msg_of sid mode resp w cm"
  have eu: "total_estimate [?u] = estimate_tokens um"
    and ea: "total_estimate [?a] = estimate_tokens (resp_content resp)"
    by (simp_all add: total_estimate_def user_msg_of_def assistant_msg_of_def)
  have "total_estimate (stored_messages sid cm @ [?u]) \<le> cm_max_context_tokens cm"
    using assms(2) estimate_tokens_nonneg [of "resp_content resp"]
    by (simp add: total_estimate_append eu)
  then have a1: "appended (cm_max_context_tokens cm) (stored_messages sid cm) ?u =
      stored_messages sid cm @ [?u]"
    by (rule appended_fits)
  have "total_estimate ((stored_messages sid cm @ [?u]) @ [?a]) =
      total_estimate (stored_messages sid cm) + estimate_tokens um
        + estimate_tokens (resp_content resp)"
    by (simp add: total_estimate_def user_msg_of_def assistant_msg_of_def)
  then have "total_estimate ((stored_messages sid cm @ [?u]) @ [?a]) \<le> cm_max_context_tokens cm"
    using assms(2) by simp
  then have a2: "appended (cm_max_context_tokens cm) (stored_messages sid cm @ [?u]) ?a =
      (stored_messages sid cm @ [?u]) @ [?a]"
    by (rule appended_fits)
  show "stored_messages sid (snd (snd (send_message sid um mode custom (w, cm)))) =
      stored_messages sid cm @ [?u, ?a]"
    by (simp add: send_message_return(2) [OF assms(1)] a1 a2)
  show "fst (send_message sid um mode custom (w, cm)) =
      success_result ?a mode sid
        (if stored_messages sid cm = [] then 2 else length (stored_messages sid cm) + 1)"
    by (simp add: send_message_return(1) [OF assms(1)] a1 length_outbound_context)
qed

subsection \<open>The request of a turn\<close>

lemma join_lines_nonempty: "join_lines ((c # l) # ls) \<noteq> []"
  by (cases ls) simp_all

lemma template_system_nonempty: "tmpl_system (turn_template mode) \<noteq> []"
proof -
  have "fast_code_system \<noteq> []" "deep_reasoning_system \<noteq> []" "code_review_system \<noteq> []"
    unfolding fast_code_system_def deep_reasoning_system_def code_review_system_def
    by (rule join_lines_nonempty)+
  then show ?thesis
    by (simp add: turn_template_def prompt_templates_def fast_code_template_def
        deep_reasoning_template_def code_review_template_def)
qed

lemma turn_system_prompt_nonempty: "turn_system_prompt mode custom \<noteq> []"
  by (simp add: turn_system_prompt_def template_system_nonempty split: option.splits)

lemma turn_request_messages:
  "req_messages (turn_request mode custom um) =
     [[(''role'', ''system''), (''content'', turn_system_prompt mode custom)],
      [(''role'', ''user''), (''content'', um)]]"
  by (simp add: turn_request_def request_for_def thinking_chat_messages_def
      simple_chat_messages_def turn_system_prompt_nonempty)

lemma turn_request_settings:
  "req_temperature (turn_request mode custom um) =
     (if tmpl_thinking (turn_template mode) then 0.3 else 0.7)"
  "req_max_tokens (turn_request mode custom um) = 4000"
  "req_enable_thinking (turn_request mode custom um) = tmpl_thinking (turn_template mode)"
  by (simp_all add: turn_request_def request_for_def)

lemma turn_template_fast_code: "turn_template ''fast_code'' = fast_code_template"
  by (simp add: turn_template_def prompt_templates_def)

lemma fast_code_settings:
  "tmpl_thinking fast_code_template = False" "tmpl_temperature fast_code_template = 0.3"
  by (simp_all add: fast_code_template_def)

subsection \<open>The failure dictionary\<close>

lemma except_success: "map_of (send_message_except e sid mode) ''success'' = Some (PyBool False)"
  by (simp add: send_message_except_def Let_def AList.update_conv')

lemma except_error: "map_of (send_message_except e sid mode) ''error'' = Some (PyStr (exn_str e))"
  by (simp add: send_message_except_def Let_def AList.update_conv')

lemma except_error_type:
  "map_of (send_message_except e sid mode) ''error_type'' =
     Some (PyStr
       (if str_in ''rate limit'' (lower (exn_str e)) \<or> str_in ''429'' (lower (exn_str e))
        then ''rate_limit''
        else if str_in ''invalid api key'' (lower (exn_str e)) \<or> str_in ''401'' (lower (exn_str e))
        then ''auth_error''
        else if str_in ''timeout'' (lower (exn_str e)) \<or> str_in ''504'' (lower (exn_str e))
        then ''timeout''
        else ''unknown''))"
  by (simp add: send_message_except_def Let_def AList.update_conv')

lemma except_retry_after:
  "map_of (send_message_except e sid mode) ''retry_after'' =
     (if str_in ''rate limit'' (lower (exn_str e)) \<or> str_in ''429'' (lower (exn_str e))
      then Some (PyInt 60)
      else if str_in ''invalid api key'' (lower (exn_str e)) \<or> str_in ''401'' (lower (exn_str e))
      then None
      else if str_in ''timeout'' (lower (exn_str e)) \<or> str_in ''504'' (lower (exn_str e))
      then Some (PyInt 30)
      else None)"
  by (simp add: send_message_except_def Let_def AList.update_conv')

text \<open>
  The messages \<^verbatim>\<open>DeepSeekClient.chat_completion\<close> raises on HTTP 429 (with the default
  \<^verbatim>\<open>Retry-After\<close> of 60), on HTTP 401 and on a request timeout.
\<close>

lemma client_rate_limit_message:
  "send_message_except (Exception ''Rate limited. Retry after 60 seconds'') sid mode =
     [(''success'', PyBool False),
      (''error'', PyStr ''Rate limited. Retry after 60 seconds''),
      (''session_id'', PyStr sid), (''mode'', PyStr mode),
      (''error_type'', PyStr ''rate_limit''), (''retry_after'', PyInt 60)]"
  by (simp add: send_message_except_def lower_def lower_char_def char_of_def bit_Suc_0_iff Let_def)

lemma client_auth_message:
  "send_message_except (Exception ''Invalid API key. Check your SILICONFLOW_KEY'') sid mode =
     [(''success'', PyBool False),
      (''error'', PyStr ''Invalid API key. Check your SILICONFLOW_KEY''),
      (''session_id'', PyStr sid), (''mode'', PyStr mode),
      (''error_type'', PyStr ''auth_error'')]"
  by (simp add: send_message_except_def lower_def lower_char_def char_of_def bit_Suc_0_iff Let_def)

lemma client_timeout_message:
  "send_message_except
     (Exception ''Request timed out. DeepSeek server might be overloaded'') sid mode =
     [(''success'', PyBool False),
      (''error'', PyStr ''Request timed out. DeepSeek server might be overloaded''),
      (''session_id'', PyStr sid), (''mode'', PyStr mode),
      (''error_type'', PyStr ''unknown'')]"
  by (simp add: send_message_except_def lower_def lower_char_def char_of_def bit_Suc_0_iff Let_def)

subsection \<open>Invariants of the store\<close>

lemma budget_consistent_init: "budget_consistent (ChatContextManager_init limit)"
  by (simp add: budget_consistent_def ChatContextManager_init_def)

lemma budget_base:
  "budget_consistent cm \<Longrightarrow> max_context_tokens (base_session sid w cm) = cm_max_context_tokens cm"
  using base_session_cases [of sid w cm]
  by (auto simp: budget_consistent_def fresh_session_def)

lemma budget_consistent_update:
  assumes "budget_consistent cm" "max_context_tokens s = cm_max_context_tokens cm"
  shows "budget_consistent (cm\<lparr>sessions := AList.update sid s (sessions cm)\<rparr>)"
  using assms set_update_subset [of sid s "sessions cm"]
  by (auto simp: budget_consistent_def)

lemma budget_consistent_create:
  "budget_consistent (snd st) \<Longrightarrow> budget_consistent (snd (snd (create_session sid_opt st)))"
  by (cases st; cases sid_opt)
     (simp_all add: create_session_Some create_session_None budget_consistent_update
        fresh_session_def)

lemma budget_consistent_add:
  "budget_consistent (snd st) \<Longrightarrow> budget_consistent (snd (snd (add_message sid m st)))"
  by (cases st) (simp add: add_message_base budget_consistent_update budget_base)

lemma budget_consistent_cleanup:
  "budget_consistent (snd st) \<Longrightarrow>
   budget_consistent (snd (snd (cleanup_old_sessions hours st)))"
  using cleanup_sessions_subset [of hours st]
  by (auto simp: budget_consistent_def cleanup_limit)

lemma budget_consistent_step:
  "budget_consistent (snd st) \<Longrightarrow> budget_consistent (snd (manager_step c st))"
  by (cases c)
     (simp_all add: budget_consistent_create budget_consistent_add budget_consistent_cleanup)

lemma budget_consistent_run:
  "budget_consistent (snd st) \<Longrightarrow> budget_consistent (snd (manager_run calls st))"
  unfolding manager_run_def
  by (induction calls arbitrary: st) (simp_all add: budget_consistent_step)

lemma roles_ok_init: "roles_ok ChatService_init"
  by (simp add: roles_ok_def ChatService_init_def ChatContextManager_init_def)

lemma roles_ok_subset:
  assumes "roles_ok cm" "set (sessions cm') \<subseteq> set (sessions cm)"
  shows "roles_ok cm'"
  using assms unfolding roles_ok_def by blast

lemma roles_ok_update:
  assumes "roles_ok cm"
    and "\<forall>m \<in> set (messages s). role m = ''user'' \<or> role m = ''assistant''"
  shows "roles_ok (cm\<lparr>sessions := AList.update sid s (sessions cm)\<rparr>)"
  using assms set_update_subset [of sid s "sessions cm"]
  unfolding roles_ok_def by auto

lemma roles_stored:
  assumes "roles_ok cm"
  shows "\<forall>m \<in> set (stored_messages sid cm). role m = ''user'' \<or> role m = ''assistant''"
proof (cases "map_of (sessions cm) sid")
  case None
  then show ?thesis by (simp add: stored_messages_def)
next
  case (Some s)
  then have "(sid, s) \<in> set (sessions cm)"
    by (rule map_of_SomeD)
  with assms Some show ?thesis
    unfolding roles_ok_def stored_messages_def by auto
qed

lemma roles_appended:
  assumes "\<forall>m \<in> set msgs. role m = ''user'' \<or> role m = ''assistant''"
    and "role x = ''user'' \<or> role x = ''assistant''"
  shows "\<forall>m \<in> set (appended limit msgs x). role m = ''user'' \<or> role m = ''assistant''"
  using assms set_appended [of limit msgs x] by blast

lemma roles_ok_send_message:
  assumes "roles_ok cm"
  shows "roles_ok (snd (snd (send_message sid um mode custom (w, cm))))"
proof -
  let ?limit = "cm_max_context_tokens cm"
  let ?u = "user_msg_of sid um w cm"
  have u: "role ?u = ''user'' \<or> role ?u = ''assistant''"
    by (simp add: user_msg_of_def)
  have m1: "\<forall>m \<in> set (appended ?limit (stored_messages sid cm) ?u).
      role m = ''user'' \<or> role m = ''assistant''"
    using roles_stored [OF assms] u by (rule roles_appended)
  show ?thesis
  proof (cases "network w (length (requests w)) (turn_request mode custom um)")
    case (Raise e)
    then show ?thesis
      using m1 by (simp add: send_message_eq Let_def roles_ok_update [OF assms])
  next
    case (Return resp)
    let ?a = "assistant_msg_of sid mode resp w cm"
    have "role ?a = ''user'' \<or> role ?a = ''assistant''"
      by (simp add: assistant_msg_of_def)
    with m1 have "\<forall>m \<in> set (appended ?limit (appended ?limit (stored_messages sid cm) ?u) ?a).
        role m = ''user'' \<or> role m = ''assistant''"
      by (rule roles_appended)
    with Return show ?thesis
      by (simp add: send_message_eq Let_def roles_ok_update [OF assms])
  qed
qed

lemma roles_ok_create:
  "roles_ok (snd st) \<Longrightarrow> roles_ok (snd (snd (create_session sid_opt st)))"
  by (cases st; cases sid_opt)
     (simp_all add: create_session_Some create_session_None roles_ok_update fresh_session_def)

lemma roles_ok_cleanup:
  "roles_ok (snd st) \<Longrightarrow> roles_ok (snd (snd (cleanup_old_sessions hours st)))"
  using cleanup_sessions_subset [of hours st] by (rule roles_ok_subset [rotated])

lemma roles_ok_clear:
  assumes "roles_ok cm"
  shows "roles_ok (snd (clear_session sid cm))"
proof -
  have "roles_ok (cm\<lparr>sessions := AList.delete sid (sessions cm)\<rparr>)"
    using assms by (rule roles_ok_subset) (simp add: set_delete_subset)
  with assms show ?thesis
    by (simp add: clear_session_def)
qed

lemma roles_ok_step: "roles_ok (snd st) \<Longrightarrow> roles_ok (snd (service_step c st))"
proof (cases c)
  case (SendMessage sid um mode custom)
  assume "roles_ok (snd st)"
  then show ?thesis
    using roles_ok_send_message [of "snd st" sid um mode custom "fst st"]
    by (simp add: SendMessage)
qed (simp_all add: roles_ok_clear roles_ok_create roles_ok_cleanup)

lemma roles_ok_run: "roles_ok (snd st) \<Longrightarrow> roles_ok (snd (service_run calls st))"
  unfolding service_run_def
  by (induction calls arbitrary: st) (simp_all add: roles_ok_step)

subsection \<open>Facts about the example inputs\<close>

lemma init_facts:
  "cm_max_context_tokens ChatService_init = 6000"
  "stored_messages sid ChatService_init = []"
  "map_of (sessions ChatService_init) sid = None"
  by (simp_all add: stored_messages_def ChatService_init_def ChatContextManager_init_def)

lemma reply_simps [simp]:
  "resp_content (reply answer) = answer" "resp_thinking (reply answer) = None"
  by (simp_all add: reply_def)

lemma length_long_text [simp]: "length long_text = 24004"
  by (simp add: long_text_def)

section \<open>The claims\<close>

text \<open>
  Claim C1 (eviction invariant). Start from an empty manager with any limit, make any
  sequence of manager calls, then append a message to any session. Right after that
  append the session exists, and the estimates of its stored messages add up to at most
  the session's \<open>max_context_tokens\<close>, or the session holds exactly one message. The
  estimate of a message is \<^verbatim>\<open>_estimate_tokens\<close> of its content, which is what the eviction
  pass adds up; where every stored message carries that estimate in its \<open>tokens\<close> field
  (as the messages built by \<^verbatim>\<open>send_message\<close> do), the same holds of the sum of the fields.
\<close>

theorem eviction_invariant:
  "\<exists>s. map_of (sessions (snd (manager_run (calls @ [AddMessage sid message])
                 (w, ChatContextManager_init limit)))) sid = Some s
       \<and> ((\<Sum>msg\<leftarrow>messages s. estimate_tokens (content msg)) \<le> max_context_tokens s
            \<or> length (messages s) = 1)
       \<and> ((\<forall>msg \<in> set (messages s). tokens msg = estimate_tokens (content msg)) \<longrightarrow>
            (\<Sum>msg\<leftarrow>messages s. tokens msg) \<le> max_context_tokens s
            \<or> length (messages s) = 1)"
proof -
  obtain w' cm' where st: "manager_run calls (w, ChatContextManager_init limit) = (w', cm')"
    by (cases "manager_run calls (w, ChatContextManager_init limit)")
  have bc: "budget_consistent cm'"
    using budget_consistent_run [of "(w, ChatContextManager_init limit)" calls]
    by (simp add: st budget_consistent_init)
  obtain s where s: "map_of (sessions (snd (snd (add_message sid message (w', cm'))))) sid = Some s"
    and msgs: "messages s = appended (cm_max_context_tokens cm') (stored_messages sid cm') message"
    and lim: "max_context_tokens s = max_context_tokens (base_session sid w' cm')"
    using add_message_stored [of sid message w' cm'] by blast
  have "max_context_tokens s = cm_max_context_tokens cm'"
    using lim bc by (simp add: budget_base)
  with appended_budget [of "cm_max_context_tokens cm'" "stored_messages sid cm'" message] msgs
  have est: "total_estimate (messages s) \<le> max_context_tokens s \<or> length (messages s) = 1"
    by simp
  then have "(\<forall>msg \<in> set (messages s). tokens msg = estimate_tokens (content msg)) \<longrightarrow>
      (\<Sum>msg\<leftarrow>messages s. tokens msg) \<le> max_context_tokens s \<or> length (messages s) = 1"
    by (auto simp: sum_tokens_estimates)
  with s est show ?thesis
    by (auto simp: manager_run_snoc st total_estimate_def)
qed

theorem eviction_invariant_witness:
  "\<exists>s. map_of (sessions (snd (manager_run
            ([AddMessage ''s''
                \<lparr>id' = ''a'', role = ''user'', content = ''abcdefgh'', thinking = None,
                 timestamp = 0, tokens = 2\<rparr>] @
             [AddMessage ''s''
                \<lparr>id' = ''b'', role = ''user'', content = ''ijklmnop'', thinking = None,
                 timestamp = 1, tokens = 2\<rparr>])
            (demo_world (always_raises ''offline''), ChatContextManager_init 1)))) ''s'' = Some s
       \<and> map content (messages s) = [''ijklmnop'']
       \<and> max_context_tokens s = 1
       \<and> (\<Sum>msg\<leftarrow>messages s. estimate_tokens (content msg)) = 2
       \<and> (\<Sum>msg\<leftarrow>messages s. tokens msg) = 2
       \<and> length (messages s) = 1"
  using eviction_invariant
    [of "[AddMessage ''s''
            \<lparr>id' = ''a'', role = ''user'', content = ''abcdefgh'', thinking = None,
             timestamp = 0, tokens = 2\<rparr>]"
        "''s''"
        "\<lparr>id' = ''b'', role = ''user'', content = ''ijklmnop'', thinking = None,
          timestamp = 1, tokens = 2\<rparr>"
        "demo_world (always_raises ''offline'')" 1]
  by (simp add: manager_run_def add_message_base creation_reads_def base_session_def
      stored_messages_def fresh_session_def AList.update_conv' appended_def total_estimate_def
      estimate_tokens_def truncate_loop_step truncate_loop_stop ChatContextManager_init_def
      demo_world_def)

text \<open>
  Claim C2 (what the collaborator is invoked with): the request carries the session's
  context and the mode profile's temperature. The code posts something else. Second
  turn of a session in mode \<^verbatim>\<open>fast_code\<close> (the first turn answered with \<^verbatim>\<open>ok\<close>, the
  second one failing): the context holds the three turns so far, while the request
  holds the system prompt and the new user message only, with temperature 0.7 where the
  profile says 0.3, and with the client's fixed \<^verbatim>\<open>max_tokens\<close> of 4000.
\<close>

theorem request_ignores_context_and_profile:
  "get_context_messages ''s''
     (snd (service_run
        [SendMessage ''s'' ''hello'' ''fast_code'' None,
         SendMessage ''s'' ''again'' ''fast_code'' None]
        (demo_world (scripted [Return (reply ''ok'')]), ChatService_init))) =
     [[(''role'', ''user''), (''content'', ''hello'')],
      [(''role'', ''assistant''), (''content'', ''ok'')],
      [(''role'', ''user''), (''content'', ''again'')]]
   \<and> map req_messages (requests (fst (service_run
        [SendMessage ''s'' ''hello'' ''fast_code'' None,
         SendMessage ''s'' ''again'' ''fast_code'' None]
        (demo_world (scripted [Return (reply ''ok'')]), ChatService_init)))) =
     [[[(''role'', ''system''), (''content'', fast_code_system)],
       [(''role'', ''user''), (''content'', ''hello'')]],
      [[(''role'', ''system''), (''content'', fast_code_system)],
       [(''role'', ''user''), (''content'', ''again'')]]]
   \<and> map req_temperature (requests (fst (service_run
        [SendMessage ''s'' ''hello'' ''fast_code'' None,
         SendMessage ''s'' ''again'' ''fast_code'' None]
        (demo_world (scripted [Return (reply ''ok'')]), ChatService_init)))) = [7 / 10, 7 / 10]
   \<and> tmpl_temperature (turn_template ''fast_code'') = 3 / 10
   \<and> map req_max_tokens (requests (fst (service_run
        [SendMessage ''s'' ''hello'' ''fast_code'' None,
         SendMessage ''s'' ''again'' ''fast_code'' None]
        (demo_world (scripted [Return (reply ''ok'')]), ChatService_init)))) = [4000, 4000]"
proof -
  let ?w0 = "demo_world (scripted [Return (reply ''ok'')])"
  obtain r1 w1 cm1 where t1:
    "send_message ''s'' ''hello'' ''fast_code'' None (?w0, ChatService_init) = (r1, w1, cm1)"
    by (cases "send_message ''s'' ''hello'' ''fast_code'' None (?w0, ChatService_init)")
  obtain r2 w2 cm2 where t2:
    "send_message ''s'' ''again'' ''fast_code'' None (w1, cm1) = (r2, w2, cm2)"
    by (cases "send_message ''s'' ''again'' ''fast_code'' None (w1, cm1)")
  have f0: "network ?w0 (length (requests ?w0)) (turn_request ''fast_code'' None ''hello'')
      = Return (reply ''ok'')"
    by (simp add: demo_world_def scripted_def)
  have w1: "network w1 = network ?w0" "cm_max_context_tokens cm1 = 6000"
    "requests w1 = [turn_request ''fast_code'' None ''hello'']"
    using send_message_world(1,4,5) [of "''s''" "''hello''" "''fast_code''" None ?w0 ChatService_init]
    by (simp_all add: t1 init_facts) (simp add: demo_world_def)
  have s1: "stored_messages ''s'' cm1 =
      [user_msg_of ''s'' ''hello'' ?w0 ChatService_init,
       assistant_msg_of ''s'' ''fast_code'' (reply ''ok'') ?w0 ChatService_init]"
    using successful_turn_fits(1) [OF f0, of "''s''" ChatService_init]
    by (simp add: t1 init_facts total_estimate_def estimate_tokens_def)
  have f1: "network w1 (length (requests w1)) (turn_request ''fast_code'' None ''again'')
      = Raise (Exception ''Connection error. Check your internet connection'')"
    by (simp add: w1 demo_world_def scripted_def)
  have s2: "stored_messages ''s'' cm2 = stored_messages ''s'' cm1 @ [user_msg_of ''s'' ''again'' w1 cm1]"
    using failed_turn_fits [OF f1, of "''s''" cm1]
    by (simp add: t2 w1 s1 total_estimate_def estimate_tokens_def user_msg_of_def
        assistant_msg_of_def)
  have w2: "requests w2 = requests w1 @ [turn_request ''fast_code'' None ''again'']"
    using send_message_world(4) [of "''s''" "''again''" "''fast_code''" None w1 cm1]
    by (simp add: t2)
  have sp: "turn_system_prompt ''fast_code'' None = fast_code_system"
    by (simp add: turn_system_prompt_def turn_template_fast_code fast_code_template_def)
  show ?thesis
    by (simp add: service_run_def t1 t2 get_context_messages_stored s2 s1 w2 w1
        turn_request_messages turn_request_settings sp turn_template_fast_code
        fast_code_settings user_msg_of_def assistant_msg_of_def)
qed

text \<open>
  Claim C3 (idempotent creation), as stated: \<^verbatim>\<open>create_session\<close> on an identifier that
  is already stored leaves the session's messages and timestamps as they were. It does
  not: a session holding one message, created at clock reading 0, holds no message and
  is created at clock reading 3 after a second \<^verbatim>\<open>create_session\<close> with its identifier.
\<close>

theorem create_session_idempotent_counterexample:
  "map content (stored_messages ''s''
      (snd (manager_run
         [AddMessage ''s''
            \<lparr>id' = ''a'', role = ''user'', content = ''Hello'', thinking = None,
             timestamp = 0, tokens = 1\<rparr>]
         (demo_world (always_raises ''offline''), ChatContextManager_init 6000)))) = [''Hello'']
   \<and> map_option created_at (map_of (sessions
      (snd (manager_run
         [AddMessage ''s''
            \<lparr>id' = ''a'', role = ''user'', content = ''Hello'', thinking = None,
             timestamp = 0, tokens = 1\<rparr>]
         (demo_world (always_raises ''offline''), ChatContextManager_init 6000)))) ''s'') = Some 0
   \<and> stored_messages ''s''
      (snd (manager_run
         [AddMessage ''s''
            \<lparr>id' = ''a'', role = ''user'', content = ''Hello'', thinking = None,
             timestamp = 0, tokens = 1\<rparr>,
          CreateSession (Some ''s'')]
         (demo_world (always_raises ''offline''), ChatContextManager_init 6000))) = []
   \<and> map_option created_at (map_of (sessions
      (snd (manager_run
         [AddMessage ''s''
            \<lparr>id' = ''a'', role = ''user'', content = ''Hello'', thinking = None,
             timestamp = 0, tokens = 1\<rparr>,
          CreateSession (Some ''s'')]
         (demo_world (always_raises ''offline''), ChatContextManager_init 6000)))) ''s'') = Some 3"
  by (simp add: manager_run_def add_message_base create_session_Some creation_reads_def
      base_session_def stored_messages_def fresh_session_def AList.update_conv' appended_def
      total_estimate_def estimate_tokens_def truncate_loop_stop ChatContextManager_init_def
      demo_world_def)

text \<open>
  Claim C3, amended. \<^verbatim>\<open>create_session\<close> with an explicit identifier returns that
  identifier and stores under it a fresh session: no messages, both timestamps read from
  the clock at the call, the manager's limit as budget. The identifier is not
  duplicated: if it was a key already the list of keys is unchanged, otherwise it is
  added at the end. Every other session is left as it was.
\<close>

theorem create_session_replaces:
  "fst (create_session (Some sid) (w, cm)) = sid
   \<and> map_of (sessions (snd (snd (create_session (Some sid) (w, cm))))) sid =
       Some \<lparr>session_id = sid, messages = [], created_at = clock w (now_calls w),
             last_active = clock w (Suc (now_calls w)),
             max_context_tokens = cm_max_context_tokens cm\<rparr>
   \<and> map fst (sessions (snd (snd (create_session (Some sid) (w, cm))))) =
       (if sid \<in> set (map fst (sessions cm)) then map fst (sessions cm)
        else map fst (sessions cm) @ [sid])
   \<and> (\<forall>k. k \<noteq> sid \<longrightarrow>
          map_of (sessions (snd (snd (create_session (Some sid) (w, cm))))) k =
          map_of (sessions cm) k)"
  by (simp add: create_session_Some fresh_session_def AList.update_conv' AList.update_keys)

theorem create_session_replaces_witness:
  "map fst (sessions (snd (manager_run
         [AddMessage ''t''
            \<lparr>id' = ''a'', role = ''user'', content = ''Hello'', thinking = None,
             timestamp = 0, tokens = 1\<rparr>,
          AddMessage ''s''
            \<lparr>id' = ''b'', role = ''user'', content = ''Hi'', thinking = None,
             timestamp = 0, tokens = 0\<rparr>]
         (demo_world (always_raises ''offline''), ChatContextManager_init 6000)))) = [''t'', ''s'']
   \<and> map fst (sessions (snd (snd (create_session (Some ''t'')
        (manager_run
         [AddMessage ''t''
            \<lparr>id' = ''a'', role = ''user'', content = ''Hello'', thinking = None,
             timestamp = 0, tokens = 1\<rparr>,
          AddMessage ''s''
            \<lparr>id' = ''b'', role = ''user'', content = ''Hi'', thinking = None,
             timestamp = 0, tokens = 0\<rparr>]
         (demo_world (always_raises ''offline''), ChatContextManager_init 6000)))))) = [''t'', ''s'']
   \<and> map content (stored_messages ''s'' (snd (snd (create_session (Some ''t'')
        (manager_run
         [AddMessage ''t''
            \<lparr>id' = ''a'', role = ''user'', content = ''Hello'', thinking = None,
             timestamp = 0, tokens = 1\<rparr>,
          AddMessage ''s''
            \<lparr>id' = ''b'', role = ''user'', content = ''Hi'', thinking = None,
             timestamp = 0, tokens = 0\<rparr>]
         (demo_world (always_raises ''offline''), ChatContextManager_init 6000)))))) = [''Hi'']
   \<and> stored_messages ''t'' (snd (snd (create_session (Some ''t'')
        (manager_run
         [AddMessage ''t''
            \<lparr>id' = ''a'', role = ''user'', content = ''Hello'', thinking = None,
             timestamp = 0, tokens = 1\<rparr>,
          AddMessage ''s''
            \<lparr>id' = ''b'', role = ''user'', content = ''Hi'', thinking = None,
             timestamp = 0, tokens = 0\<rparr>]
         (demo_world (always_raises ''offline''), ChatContextManager_init 6000))))) = []"
  using create_session_replaces
    [of "''t''" "fst (manager_run
         [AddMessage ''t''
            \<lparr>id' = ''a'', role = ''user'', content = ''Hello'', thinking = None,
             timestamp = 0, tokens = 1\<rparr>,
          AddMessage ''s''
            \<lparr>id' = ''b'', role = ''user'', content = ''Hi'', thinking = None,
             timestamp = 0, tokens = 0\<rparr>]
         (demo_world (always_raises ''offline''), ChatContextManager_init 6000))"
        "snd (manager_run
         [AddMessage ''t''
            \<lparr>id' = ''a'', role = ''user'', content = ''Hello'', thinking = None,
             timestamp = 0, tokens = 1\<rparr>,
          AddMessage ''s''
            \<lparr>id' = ''b'', role = ''user'', content = ''Hi'', thinking = None,
             timestamp = 0, tokens = 0\<rparr>]
         (demo_world (always_raises ''offline''), ChatContextManager_init 6000))"]
  by (simp add: manager_run_def add_message_base creation_reads_def base_session_def
      stored_messages_def fresh_session_def AList.update_conv' appended_def total_estimate_def
      estimate_tokens_def truncate_loop_stop ChatContextManager_init_def demo_world_def)

text \<open>
  Claim C4 (system prompt on the first turn only): on a later turn the system prompt is
  not part of the outbound call. In the code it is. Two answered turns of one session
  with the custom system prompt \<^verbatim>\<open>Be brief\<close>: the second turn reports a context of 3
  entries, so its local list got no system message, yet both requests that were posted
  start with the system message.
\<close>

theorem system_prompt_sent_on_later_turn:
  "map_of (fst (send_message ''s'' ''again'' ''fast_code'' (Some ''Be brief'')
        (snd (send_message ''s'' ''hello'' ''fast_code'' (Some ''Be brief'')
           (demo_world (always_replies ''ok''), ChatService_init))))) ''context_length''
     = Some (PyInt 3)
   \<and> map req_messages (requests (fst (snd
        (send_message ''s'' ''again'' ''fast_code'' (Some ''Be brief'')
           (snd (send_message ''s'' ''hello'' ''fast_code'' (Some ''Be brief'')
              (demo_world (always_replies ''ok''), ChatService_init))))))) =
     [[[(''role'', ''system''), (''content'', ''Be brief'')],
       [(''role'', ''user''), (''content'', ''hello'')]],
      [[(''role'', ''system''), (''content'', ''Be brief'')],
       [(''role'', ''user''), (''content'', ''again'')]]]"
proof -
  let ?w0 = "demo_world (always_replies ''ok'')"
  let ?c = "Some ''Be brief''"
  obtain r1 w1 cm1 where t1:
    "send_message ''s'' ''hello'' ''fast_code'' ?c (?w0, ChatService_init) = (r1, w1, cm1)"
    by (cases "send_message ''s'' ''hello'' ''fast_code'' ?c (?w0, ChatService_init)")
  have f0: "network ?w0 (length (requests ?w0)) (turn_request ''fast_code'' ?c ''hello'')
      = Return (reply ''ok'')"
    by (simp add: demo_world_def always_replies_def)
  have w1: "network w1 = network ?w0" "cm_max_context_tokens cm1 = 6000"
    "requests w1 = [turn_request ''fast_code'' ?c ''hello'']"
    using send_message_world(1,4,5) [of "''s''" "''hello''" "''fast_code''" ?c ?w0 ChatService_init]
    by (simp_all add: t1 init_facts) (simp add: demo_world_def)
  have s1: "stored_messages ''s'' cm1 =
      [user_msg_of ''s'' ''hello'' ?w0 ChatService_init,
       assistant_msg_of ''s'' ''fast_code'' (reply ''ok'') ?w0 ChatService_init]"
    using successful_turn_fits(1) [OF f0, of "''s''" ChatService_init]
    by (simp add: t1 init_facts total_estimate_def estimate_tokens_def)
  have f1: "network w1 (length (requests w1)) (turn_request ''fast_code'' ?c ''again'')
      = Return (reply ''ok'')"
    by (simp add: w1 demo_world_def always_replies_def)
  have fits: "total_estimate (stored_messages ''s'' cm1) + estimate_tokens ''again''
      + estimate_tokens (resp_content (reply ''ok'')) \<le> cm_max_context_tokens cm1"
    by (simp add: w1 s1 total_estimate_def estimate_tokens_def user_msg_of_def
        assistant_msg_of_def)
  have r2: "fst (send_message ''s'' ''again'' ''fast_code'' ?c (w1, cm1)) =
      success_result (assistant_msg_of ''s'' ''fast_code'' (reply ''ok'') w1 cm1)
        ''fast_code'' ''s'' 3"
    using successful_turn_fits(2) [OF f1 fits] by (simp add: s1 numeral_3_eq_3)
  have w2: "requests (fst (snd (send_message ''s'' ''again'' ''fast_code'' ?c (w1, cm1)))) =
      requests w1 @ [turn_request ''fast_code'' ?c ''again'']"
    by (rule send_message_world(4))
  have sp: "turn_system_prompt ''fast_code'' ?c = ''Be brief''"
    by (simp add: turn_system_prompt_def)
  show ?thesis
    by (simp add: t1 r2 w2 w1 success_result_def turn_request_messages sp)
qed

text \<open>
  Claim C5 (partial failure), as stated: when the collaborator fails, the session's
  message count is one more than before the call. It is not when the user append
  itself evicts: in a service whose remote side always fails, a first turn of 24004
  characters (6001 estimated tokens, over the limit of 6000) leaves one stored message,
  and the second turn, which fails too, leaves one stored message again, its own.
\<close>

theorem failed_turn_count_counterexample:
  "map content (stored_messages ''s''
      (snd (snd (send_message ''s'' long_text ''fast_code'' None
         (demo_world (always_raises ''Connection error. Check your internet connection''),
          ChatService_init))))) = [long_text]
   \<and> map_of (fst (send_message ''s'' ''hi'' ''fast_code'' None
        (snd (send_message ''s'' long_text ''fast_code'' None
           (demo_world (always_raises ''Connection error. Check your internet connection''),
            ChatService_init))))) ''success'' = Some (PyBool False)
   \<and> map content (stored_messages ''s''
      (snd (snd (send_message ''s'' ''hi'' ''fast_code'' None
        (snd (send_message ''s'' long_text ''fast_code'' None
           (demo_world (always_raises ''Connection error. Check your internet connection''),
            ChatService_init))))))) = [''hi'']"
proof -
  let ?w0 = "demo_world (always_raises ''Connection error. Check your internet connection'')"
  obtain r1 w1 cm1 where t1:
    "send_message ''s'' long_text ''fast_code'' None (?w0, ChatService_init) = (r1, w1, cm1)"
    by (cases "send_message ''s'' long_text ''fast_code'' None (?w0, ChatService_init)")
  have f0: "network ?w0 (length (requests ?w0)) (turn_request ''fast_code'' None long_text)
      = Raise (Exception ''Connection error. Check your internet connection'')"
    by (simp add: demo_world_def always_raises_def)
  have lim0: "cm_max_context_tokens ChatService_init = 6000"
    and emp0: "stored_messages ''s'' ChatService_init = []"
    by (simp_all add: stored_messages_def ChatService_init_def ChatContextManager_init_def)
  have net1: "network w1 = network ?w0" and lim1: "cm_max_context_tokens cm1 = 6000"
    using send_message_world(1,5) [of "''s''" long_text "''fast_code''" None ?w0 ChatService_init]
    by (simp_all add: t1 lim0)
  have s1: "stored_messages ''s'' cm1 =
      [user_msg_of ''s'' long_text ?w0 ChatService_init]"
    using send_message_raise(2) [OF f0, of "''s''" ChatService_init]
    by (simp add: t1 emp0 appended_empty)
  have f1: "network w1 (length (requests w1)) (turn_request ''fast_code'' None ''hi'')
      = Raise (Exception ''Connection error. Check your internet connection'')"
    by (simp add: net1 demo_world_def always_raises_def)
  have s2: "stored_messages ''s'' (snd (snd (send_message ''s'' ''hi'' ''fast_code'' None (w1, cm1))))
      = [user_msg_of ''s'' ''hi'' w1 cm1]"
    using send_message_raise(2) [OF f1, of "''s''" cm1]
    by (simp add: s1 lim1 appended_def total_estimate_def user_msg_of_def estimate_tokens_def
        truncate_loop_step truncate_loop_stop)
  show ?thesis
    using s1 s2 send_message_raise(1) [OF f1, of "''s''" cm1]
    by (simp add: t1 user_msg_of_def except_success)
qed

text \<open>
  Claim C5, amended. When the remote side answers the turn's request with an
  exception, \<^verbatim>\<open>send_message\<close> returns the failure dictionary (its \<^verbatim>\<open>success\<close> is
  \<^verbatim>\<open>False\<close>), and the session's history is the old history with the user message appended
  and the eviction pass run: the user message is its last message, no assistant
  message is added, and what is stored is a suffix of the old history followed by the
  user message. So the count grows by at most 1, and by exactly 1 when the old history
  and the user message together fit the limit.
\<close>

theorem failed_turn_keeps_user_message:
  assumes "network w (length (requests w)) (turn_request mode custom um) = Raise e"
  shows "\<exists>m. role m = ''user'' \<and> content m = um \<and> tokens m = estimate_tokens um
       \<and> fst (send_message sid um mode custom (w, cm)) = send_message_except e sid mode
       \<and> map_of (fst (send_message sid um mode custom (w, cm))) ''success'' = Some (PyBool False)
       \<and> stored_messages sid (snd (snd (send_message sid um mode custom (w, cm)))) \<noteq> []
       \<and> last (stored_messages sid (snd (snd (send_message sid um mode custom (w, cm))))) = m
       \<and> suffix (stored_messages sid (snd (snd (send_message sid um mode custom (w, cm)))))
            (stored_messages sid cm @ [m])
       \<and> length (stored_messages sid (snd (snd (send_message sid um mode custom (w, cm)))))
            \<le> length (stored_messages sid cm) + 1
       \<and> (total_estimate (stored_messages sid cm @ [m]) \<le> cm_max_context_tokens cm \<longrightarrow>
            stored_messages sid (snd (snd (send_message sid um mode custom (w, cm)))) =
            stored_messages sid cm @ [m])"
proof -
  let ?m = "user_msg_of sid um w cm"
  let ?after = "stored_messages sid (snd (snd (send_message sid um mode custom (w, cm))))"
  have after: "?after = appended (cm_max_context_tokens cm) (stored_messages sid cm) ?m"
    by (rule send_message_raise(2) [OF assms])
  have "role ?m = ''user''" "content ?m = um" "tokens ?m = estimate_tokens um"
    by (simp_all add: user_msg_of_def)
  moreover have "fst (send_message sid um mode custom (w, cm)) = send_message_except e sid mode"
    by (rule send_message_raise(1) [OF assms])
  moreover have "?after \<noteq> []" "last ?after = ?m"
    using appended_last [of "cm_max_context_tokens cm" "stored_messages sid cm" ?m]
    by (simp_all add: after)
  moreover have "suffix ?after (stored_messages sid cm @ [?m])"
    unfolding after by (rule appended_suffix)
  moreover have "length ?after \<le> length (stored_messages sid cm) + 1"
    unfolding after by (rule length_appended)
  moreover have "total_estimate (stored_messages sid cm @ [?m]) \<le> cm_max_context_tokens cm \<longrightarrow>
      ?after = stored_messages sid cm @ [?m]"
    unfolding after by (simp add: appended_fits)
  ultimately show ?thesis
    by (intro exI [of _ ?m]) (simp add: except_success)
qed

theorem failed_turn_keeps_user_message_witness:
  "network (demo_world (always_raises ''Connection error. Check your internet connection''))
     (length (requests
        (demo_world (always_raises ''Connection error. Check your internet connection''))))
     (turn_request ''fast_code'' None ''hi'')
     = Raise (Exception ''Connection error. Check your internet connection'')
   \<and> (\<exists>m. role m = ''user'' \<and> content m = ''hi''
        \<and> map_of (fst (send_message ''s'' ''hi'' ''fast_code'' None
             (demo_world (always_raises ''Connection error. Check your internet connection''),
              ChatService_init))) ''success'' = Some (PyBool False)
        \<and> stored_messages ''s'' (snd (snd (send_message ''s'' ''hi'' ''fast_code'' None
             (demo_world (always_raises ''Connection error. Check your internet connection''),
              ChatService_init)))) = [m])"
proof -
  let ?w0 = "demo_world (always_raises ''Connection error. Check your internet connection'')"
  have f0: "network ?w0 (length (requests ?w0)) (turn_request ''fast_code'' None ''hi'')
      = Raise (Exception ''Connection error. Check your internet connection'')"
    by (simp add: demo_world_def always_raises_def)
  have "stored_messages ''s'' ChatService_init = []"
    by (simp add: stored_messages_def ChatService_init_def ChatContextManager_init_def)
  moreover have "0 \<le> cm_max_context_tokens ChatService_init"
    by (simp add: ChatService_init_def ChatContextManager_init_def)
  ultimately show ?thesis
    using failed_turn_keeps_user_message [OF f0, of "''s''" ChatService_init] f0
    by (auto simp: total_estimate_def estimate_tokens_def)
qed

text \<open>
  Claim C6 (newest survives). After \<^verbatim>\<open>add_message\<close> the session exists, its history is
  not empty and its last message is the one just appended, whatever its size; appended
  to a session with no history (empty or not yet created) it is the whole history.
\<close>

theorem newest_survives:
  "\<exists>s. map_of (sessions (snd (snd (add_message sid message (w, cm))))) sid = Some s
       \<and> messages s \<noteq> []
       \<and> last (messages s) = message
       \<and> (stored_messages sid cm = [] \<longrightarrow> messages s = [message])"
  using add_message_stored [of sid message w cm]
    appended_last [of "cm_max_context_tokens cm" "stored_messages sid cm" message]
  by (auto simp: appended_empty)

theorem newest_survives_witness:
  "1 < estimate_tokens ''abcdefgh''
   \<and> stored_messages ''s''
        (snd (snd (create_session (Some ''s'')
           (demo_world (always_raises ''offline''), ChatContextManager_init 1)))) = []
   \<and> (\<exists>s. map_of (sessions (snd (snd (add_message ''s''
                \<lparr>id' = ''a'', role = ''user'', content = ''abcdefgh'', thinking = None,
                 timestamp = 0, tokens = 2\<rparr>
                (snd (create_session (Some ''s'')
                   (demo_world (always_raises ''offline''), ChatContextManager_init 1))))))) ''s''
            = Some s
          \<and> cm_max_context_tokens
               (snd (snd (create_session (Some ''s'')
                  (demo_world (always_raises ''offline''), ChatContextManager_init 1)))) = 1
          \<and> messages s =
              [\<lparr>id' = ''a'', role = ''user'', content = ''abcdefgh'', thinking = None,
                timestamp = 0, tokens = 2\<rparr>])"
  using newest_survives
    [of "''s''"
        "\<lparr>id' = ''a'', role = ''user'', content = ''abcdefgh'', thinking = None,
          timestamp = 0, tokens = 2\<rparr>"
        "fst (snd (create_session (Some ''s'')
           (demo_world (always_raises ''offline''), ChatContextManager_init 1)))"
        "snd (snd (create_session (Some ''s'')
           (demo_world (always_raises ''offline''), ChatContextManager_init 1)))"]
  by (auto simp: create_session_Some stored_messages_def fresh_session_def AList.update_conv'
      estimate_tokens_def ChatContextManager_init_def demo_world_def)

text \<open>
  Claim C7 (failure categories): a timeout of the collaborator yields the category
  \<^verbatim>\<open>timeout\<close> with a retry delay of 30. The code does not do this for the timeout
  the client itself reports: the turn of \<^verbatim>\<open>test_timeout_error\<close>, in which the client raises
  \<^verbatim>\<open>Exception("Request timed out. DeepSeek server might be overloaded")\<close>, returns the
  category \<^verbatim>\<open>unknown\<close> and no \<^verbatim>\<open>retry_after\<close>, because the lower-cased message
  contains neither \<^verbatim>\<open>timeout\<close> nor \<^verbatim>\<open>504\<close>.
\<close>

theorem client_timeout_classified_unknown:
  "fst (send_message ''test-session'' ''This should timeout'' ''fast_code'' None
     (demo_world (always_raises ''Request timed out. DeepSeek server might be overloaded''),
      ChatService_init)) =
     [(''success'', PyBool False),
      (''error'', PyStr ''Request timed out. DeepSeek server might be overloaded''),
      (''session_id'', PyStr ''test-session''), (''mode'', PyStr ''fast_code''),
      (''error_type'', PyStr ''unknown'')]"
proof -
  let ?w0 = "demo_world (always_raises ''Request timed out. DeepSeek server might be overloaded'')"
  have "network ?w0 (length (requests ?w0)) (turn_request ''fast_code'' None ''This should timeout'')
      = Raise (Exception ''Request timed out. DeepSeek server might be overloaded'')"
    by (simp add: demo_world_def always_raises_def)
  then show ?thesis
    by (simp only: send_message_raise(1) client_timeout_message)
qed

text \<open>
  Claim C8 (success result), as stated: the \<^verbatim>\<open>context_length\<close> of a successful turn is
  the session's context length after the assistant message has been appended. It is
  not: the second successful turn of a session returns 3 while the session then holds
  4 messages.
\<close>

theorem context_length_counterexample:
  "map_of (fst (send_message ''s'' ''again'' ''fast_code'' None
        (snd (send_message ''s'' ''hello'' ''fast_code'' None
           (demo_world (always_replies ''ok''), ChatService_init))))) ''success''
     = Some (PyBool True)
   \<and> map_of (fst (send_message ''s'' ''again'' ''fast_code'' None
        (snd (send_message ''s'' ''hello'' ''fast_code'' None
           (demo_world (always_replies ''ok''), ChatService_init))))) ''context_length''
     = Some (PyInt 3)
   \<and> map content (stored_messages ''s''
        (snd (snd (send_message ''s'' ''again'' ''fast_code'' None
           (snd (send_message ''s'' ''hello'' ''fast_code'' None
              (demo_world (always_replies ''ok''), ChatService_init)))))))
     = [''hello'', ''ok'', ''again'', ''ok'']"
proof -
  let ?w0 = "demo_world (always_replies ''ok'')"
  obtain r1 w1 cm1 where t1:
    "send_message ''s'' ''hello'' ''fast_code'' None (?w0, ChatService_init) = (r1, w1, cm1)"
    by (cases "send_message ''s'' ''hello'' ''fast_code'' None (?w0, ChatService_init)")
  have f0: "network ?w0 (length (requests ?w0)) (turn_request ''fast_code'' None ''hello'')
      = Return (reply ''ok'')"
    by (simp add: demo_world_def always_replies_def)
  have net1: "network w1 = network ?w0" and lim1: "cm_max_context_tokens cm1 = 6000"
    using send_message_world(1,5) [of "''s''" "''hello''" "''fast_code''" None ?w0 ChatService_init]
    by (simp_all add: t1 init_facts)
  have s1: "stored_messages ''s'' cm1 =
      [user_msg_of ''s'' ''hello'' ?w0 ChatService_init,
       assistant_msg_of ''s'' ''fast_code'' (reply ''ok'') ?w0 ChatService_init]"
    using send_message_return(2) [OF f0, of "''s''" ChatService_init]
    by (simp add: t1 init_facts appended_def total_estimate_def user_msg_of_def
        assistant_msg_of_def estimate_tokens_def truncate_loop_stop reply_def)
  have e1: "total_estimate (stored_messages ''s'' cm1) = 1"
    "length (stored_messages ''s'' cm1) = 2"
    "map content (stored_messages ''s'' cm1) = [''hello'', ''ok'']"
    by (simp_all add: s1 total_estimate_def user_msg_of_def assistant_msg_of_def
        estimate_tokens_def reply_def)
  have f1: "network w1 (length (requests w1)) (turn_request ''fast_code'' None ''again'')
      = Return (reply ''ok'')"
    by (simp add: net1 demo_world_def always_replies_def)
  let ?u = "user_msg_of ''s'' ''again'' w1 cm1"
  let ?a = "assistant_msg_of ''s'' ''fast_code'' (reply ''ok'') w1 cm1"
  have a1: "appended 6000 (stored_messages ''s'' cm1) ?u = stored_messages ''s'' cm1 @ [?u]"
    using e1 by (intro appended_fits)
      (simp add: total_estimate_def user_msg_of_def estimate_tokens_def)
  have a2: "appended 6000 (stored_messages ''s'' cm1 @ [?u]) ?a = stored_messages ''s'' cm1 @ [?u, ?a]"
    using e1 appended_fits [of "stored_messages ''s'' cm1 @ [?u]" ?a 6000]
    by (simp add: total_estimate_def user_msg_of_def assistant_msg_of_def estimate_tokens_def
        reply_def)
  have res: "fst (send_message ''s'' ''again'' ''fast_code'' None (w1, cm1)) =
      success_result ?a ''fast_code'' ''s'' 3"
    using send_message_return(1) [OF f1, of "''s''" cm1]
    by (simp add: lim1 a1 length_outbound_context e1)
  have st: "stored_messages ''s'' (snd (snd (send_message ''s'' ''again'' ''fast_code'' None
      (w1, cm1)))) = stored_messages ''s'' cm1 @ [?u, ?a]"
    using send_message_return(2) [OF f1, of "''s''" cm1]
    by (simp add: lim1 a1 a2)
  show ?thesis
    by (simp add: t1 res st e1 success_result_def user_msg_of_def assistant_msg_of_def
        reply_def)
qed

text \<open>
  Claim C8, amended. When the remote side answers the turn's request with a response,
  the session's last stored message is the assistant message built from it (role
  \<^verbatim>\<open>assistant\<close>, the returned text as content, its estimate as \<^verbatim>\<open>tokens\<close>, the reasoning
  text kept for the mode), and \<^verbatim>\<open>send_message\<close> returns the dictionary with that
  message's id, content, reasoning and token estimate, the requested mode and the
  session id. Its \<^verbatim>\<open>context_length\<close> is the length of the list assembled before the
  remote call: the number of messages stored right after the user append, or 2 when
  that number is 1 (the system message was put in front).
\<close>

theorem successful_turn_result:
  assumes "network w (length (requests w)) (turn_request mode custom um) = Return resp"
  shows "\<exists>u a. role u = ''user'' \<and> content u = um
       \<and> role a = ''assistant'' \<and> content a = resp_content resp
       \<and> tokens a = estimate_tokens (resp_content resp)
       \<and> thinking a = reply_thinking (turn_template mode) resp
       \<and> stored_messages sid (snd (snd (send_message sid um mode custom (w, cm)))) \<noteq> []
       \<and> last (stored_messages sid (snd (snd (send_message sid um mode custom (w, cm))))) = a
       \<and> fst (send_message sid um mode custom (w, cm)) =
           [(''success'', PyBool True),
            (''message_id'', PyStr (id' a)),
            (''response'', PyStr (content a)),
            (''thinking'', (case thinking a of None \<Rightarrow> PyNone | Some t \<Rightarrow> PyStr t)),
            (''mode'', PyStr mode),
            (''session_id'', PyStr sid),
            (''context_length'',
               PyInt (int (if length (appended (cm_max_context_tokens cm)
                                        (stored_messages sid cm) u) = 1
                           then 2
                           else length (appended (cm_max_context_tokens cm)
                                          (stored_messages sid cm) u)))),
            (''tokens_used'', PyInt (tokens a))]"
proof -
  let ?u = "user_msg_of sid um w cm"
  let ?a = "assistant_msg_of sid mode resp w cm"
  let ?msgs1 = "appended (cm_max_context_tokens cm) (stored_messages sid cm) ?u"
  let ?after = "stored_messages sid (snd (snd (send_message sid um mode custom (w, cm))))"
  have after: "?after = appended (cm_max_context_tokens cm) ?msgs1 ?a"
    by (rule send_message_return(2) [OF assms])
  have "?after \<noteq> []" "last ?after = ?a"
    using appended_last [of "cm_max_context_tokens cm" ?msgs1 ?a] by (simp_all add: after)
  moreover have "role ?u = ''user''" "content ?u = um" "role ?a = ''assistant''"
    "content ?a = resp_content resp" "tokens ?a = estimate_tokens (resp_content resp)"
    "thinking ?a = reply_thinking (turn_template mode) resp"
    by (simp_all add: user_msg_of_def assistant_msg_of_def)
  moreover have "fst (send_message sid um mode custom (w, cm)) =
      success_result ?a mode sid (if length ?msgs1 = 1 then 2 else length ?msgs1)"
    using send_message_return(1) [OF assms, of sid cm] by (simp add: length_outbound_context)
  ultimately show ?thesis
    by (intro exI [of _ ?u] exI [of _ ?a]) (simp add: success_result_def)
qed

theorem successful_turn_result_witness:
  "network (demo_world (always_replies ''ok''))
     (length (requests (demo_world (always_replies ''ok''))))
     (turn_request ''fast_code'' None ''hello'') = Return (reply ''ok'')
   \<and> fst (send_message ''s'' ''hello'' ''fast_code'' None
        (demo_world (always_replies ''ok''), ChatService_init)) =
       [(''success'', PyBool True),
        (''message_id'', PyStr ''m+''),
        (''response'', PyStr ''ok''),
        (''thinking'', PyNone),
        (''mode'', PyStr ''fast_code''),
        (''session_id'', PyStr ''s''),
        (''context_length'', PyInt 2),
        (''tokens_used'', PyInt 0)]"
proof -
  let ?w0 = "demo_world (always_replies ''ok'')"
  have f0: "network ?w0 (length (requests ?w0)) (turn_request ''fast_code'' None ''hello'')
      = Return (reply ''ok'')"
    by (simp add: demo_world_def always_replies_def)
  obtain u a where "content a = resp_content (reply ''ok'')"
    and "thinking a = reply_thinking (turn_template ''fast_code'') (reply ''ok'')"
    and "last (stored_messages ''s'' (snd (snd (send_message ''s'' ''hello'' ''fast_code'' None
            (?w0, ChatService_init))))) = a"
    and res: "fst (send_message ''s'' ''hello'' ''fast_code'' None (?w0, ChatService_init)) =
           [(''success'', PyBool True),
            (''message_id'', PyStr (id' a)),
            (''response'', PyStr (content a)),
            (''thinking'', (case thinking a of None \<Rightarrow> PyNone | Some t \<Rightarrow> PyStr t)),
            (''mode'', PyStr ''fast_code''),
            (''session_id'', PyStr ''s''),
            (''context_length'',
               PyInt (int (if length (appended (cm_max_context_tokens ChatService_init)
                                        (stored_messages ''s'' ChatService_init) u) = 1
                           then 2
                           else length (appended (cm_max_context_tokens ChatService_init)
                                          (stored_messages ''s'' ChatService_init) u)))),
            (''tokens_used'', PyInt (tokens a))]"
    using successful_turn_result [OF f0, of "''s''" ChatService_init] by blast
  have "fst (send_message ''s'' ''hello'' ''fast_code'' None (?w0, ChatService_init)) =
      success_result (assistant_msg_of ''s'' ''fast_code'' (reply ''ok'') ?w0 ChatService_init)
        ''fast_code'' ''s'' 2"
    using send_message_return(1) [OF f0, of "''s''" ChatService_init]
    by (simp add: init_facts appended_empty length_outbound_context)
  then show ?thesis
    using f0 res
    by (simp add: success_result_def assistant_msg_of_def reply_def reply_thinking_def
        turn_template_fast_code fast_code_settings estimate_tokens_def demo_world_def)
qed

text \<open>
  Claim C9 (projection and order). For an unknown session \<^verbatim>\<open>get_context_messages\<close>
  returns the empty list. For a stored session it returns one entry per stored message,
  in stored order, and the entry at each position is the two-key dictionary of that
  message's role and content. An append to a stored session leaves a suffix of the old
  history followed by the new message: eviction takes messages from the head only.
\<close>

theorem context_projection:
  "(map_of (sessions cm) sid = None \<longrightarrow> get_context_messages sid cm = [])
   \<and> (\<forall>s. map_of (sessions cm) sid = Some s \<longrightarrow>
          length (get_context_messages sid cm) = length (messages s)
          \<and> (\<forall>i < length (messages s).
                get_context_messages sid cm ! i =
                  [(''role'', role (messages s ! i)), (''content'', content (messages s ! i))])
          \<and> (\<forall>message w. \<exists>s'.
                map_of (sessions (snd (snd (add_message sid message (w, cm))))) sid = Some s'
                \<and> suffix (messages s') (messages s @ [message])))"
proof (intro conjI allI impI)
  assume "map_of (sessions cm) sid = None"
  then show "get_context_messages sid cm = []"
    by (simp add: get_context_messages_def)
next
  fix s
  assume "map_of (sessions cm) sid = Some s"
  then show "length (get_context_messages sid cm) = length (messages s)"
    by (simp add: get_context_messages_def)
next
  fix s i
  assume "map_of (sessions cm) sid = Some s" "i < length (messages s)"
  then show "get_context_messages sid cm ! i =
      [(''role'', role (messages s ! i)), (''content'', content (messages s ! i))]"
    by (simp add: get_context_messages_def)
next
  fix s message w
  assume s: "map_of (sessions cm) sid = Some s"
  then have "stored_messages sid cm = messages s"
    by (simp add: stored_messages_def)
  with add_message_stored [of sid message w cm]
    appended_suffix [of "cm_max_context_tokens cm" "messages s" message]
  show "\<exists>s'. map_of (sessions (snd (snd (add_message sid message (w, cm))))) sid = Some s'
          \<and> suffix (messages s') (messages s @ [message])"
    by auto
qed

theorem context_projection_witness:
  "get_context_messages ''nobody''
     (snd (manager_run
        [AddMessage ''s''
           \<lparr>id' = ''a'', role = ''user'', content = ''Hello'', thinking = None,
            timestamp = 0, tokens = 1\<rparr>,
         AddMessage ''s''
           \<lparr>id' = ''b'', role = ''assistant'', content = ''Hi there!'', thinking = Some ''hm'',
            timestamp = 1, tokens = 2\<rparr>]
        (demo_world (always_raises ''offline''), ChatContextManager_init 1000))) = []
   \<and> get_context_messages ''s''
     (snd (manager_run
        [AddMessage ''s''
           \<lparr>id' = ''a'', role = ''user'', content = ''Hello'', thinking = None,
            timestamp = 0, tokens = 1\<rparr>,
         AddMessage ''s''
           \<lparr>id' = ''b'', role = ''assistant'', content = ''Hi there!'', thinking = Some ''hm'',
            timestamp = 1, tokens = 2\<rparr>]
        (demo_world (always_raises ''offline''), ChatContextManager_init 1000))) ! 1
     = [(''role'', ''assistant''), (''content'', ''Hi there!'')]"
  using context_projection
    [of "snd (manager_run
        [AddMessage ''s''
           \<lparr>id' = ''a'', role = ''user'', content = ''Hello'', thinking = None,
            timestamp = 0, tokens = 1\<rparr>,
         AddMessage ''s''
           \<lparr>id' = ''b'', role = ''assistant'', content = ''Hi there!'', thinking = Some ''hm'',
            timestamp = 1, tokens = 2\<rparr>]
        (demo_world (always_raises ''offline''), ChatContextManager_init 1000))" "''nobody''"]
    context_projection
    [of "snd (manager_run
        [AddMessage ''s''
           \<lparr>id' = ''a'', role = ''user'', content = ''Hello'', thinking = None,
            timestamp = 0, tokens = 1\<rparr>,
         AddMessage ''s''
           \<lparr>id' = ''b'', role = ''assistant'', content = ''Hi there!'', thinking = Some ''hm'',
            timestamp = 1, tokens = 2\<rparr>]
        (demo_world (always_raises ''offline''), ChatContextManager_init 1000))" "''s''"]
  by (simp add: manager_run_def add_message_base creation_reads_def base_session_def
      stored_messages_def fresh_session_def AList.update_conv' appended_def total_estimate_def
      estimate_tokens_def truncate_loop_step truncate_loop_stop ChatContextManager_init_def
      demo_world_def)

text \<open>
  Claim C10 (no system message is stored). Start a service (its manager empty, limit
  6000) in any world and make any sequence of service calls: turns with any outcome,
  session creation, clearing, cleanup. Every message in every stored session then has
  the role \<^verbatim>\<open>user\<close> or \<^verbatim>\<open>assistant\<close>. The system message of a first turn exists only
  in the local list of \<^verbatim>\<open>send_message\<close> and in the request posted.
\<close>

theorem stored_roles:
  "\<forall>(sid, s) \<in> set (sessions (snd (service_run calls (w, ChatService_init)))).
     \<forall>m \<in> set (messages s). role m = ''user'' \<or> role m = ''assistant''"
proof -
  have "roles_ok (snd (service_run calls (w, ChatService_init)))"
    by (rule roles_ok_run) (simp add: roles_ok_init)
  then show ?thesis
    by (simp add: roles_ok_def)
qed

theorem stored_roles_witness:
  "map fst (sessions (snd (service_run
      [SendMessage ''s'' ''hello'' ''fast_code'' None]
      (demo_world (always_replies ''ok''), ChatService_init)))) = [''s'']
   \<and> map role (stored_messages ''s'' (snd (service_run
      [SendMessage ''s'' ''hello'' ''fast_code'' None]
      (demo_world (always_replies ''ok''), ChatService_init)))) = [''user'', ''assistant'']
   \<and> list_all (\<lambda>(sid, s). list_all (\<lambda>m. role m = ''user'' \<or> role m = ''assistant'') (messages s))
       (sessions (snd (service_run
          [SendMessage ''s'' ''hello'' ''fast_code'' None]
          (demo_world (always_replies ''ok''), ChatService_init))))
   \<and> map (map snd) (concat (map req_messages (requests (fst (service_run
      [SendMessage ''s'' ''hello'' ''fast_code'' None]
      (demo_world (always_replies ''ok''), ChatService_init))))))
       = [[''system'', fast_code_system], [''user'', ''hello'']]"
proof -
  let ?w0 = "demo_world (always_replies ''ok'')"
  let ?st = "service_run [SendMessage ''s'' ''hello'' ''fast_code'' None] (?w0, ChatService_init)"
  have run: "?st = snd (send_message ''s'' ''hello'' ''fast_code'' None (?w0, ChatService_init))"
    by (simp add: service_run_def)
  have f0: "network ?w0 (length (requests ?w0)) (turn_request ''fast_code'' None ''hello'')
      = Return (reply ''ok'')"
    by (simp add: demo_world_def always_replies_def)
  have s1: "stored_messages ''s'' (snd ?st) =
      [user_msg_of ''s'' ''hello'' ?w0 ChatService_init,
       assistant_msg_of ''s'' ''fast_code'' (reply ''ok'') ?w0 ChatService_init]"
    unfolding run using successful_turn_fits(1) [OF f0, of "''s''" ChatService_init]
    by (simp add: init_facts total_estimate_def estimate_tokens_def)
  have keys: "map fst (sessions (snd ?st)) = [''s'']"
    unfolding run using f0
    by (simp add: send_message_eq Let_def ChatService_init_def ChatContextManager_init_def)
  have reqs: "requests (fst ?st) = [turn_request ''fast_code'' None ''hello'']"
    unfolding run using send_message_world(4) [of "''s''" "''hello''" "''fast_code''" None ?w0 ChatService_init]
    by (simp add: demo_world_def)
  have sp: "turn_system_prompt ''fast_code'' None = fast_code_system"
    by (simp add: turn_system_prompt_def turn_template_fast_code fast_code_template_def)
  have "list_all (\<lambda>(sid, s). list_all (\<lambda>m. role m = ''user'' \<or> role m = ''assistant'') (messages s))
       (sessions (snd ?st))"
    using stored_roles [of "[SendMessage ''s'' ''hello'' ''fast_code'' None]" ?w0]
    by (simp add: list_all_iff case_prod_unfold)
  then show ?thesis
    by (simp add: keys s1 reqs turn_request_messages sp user_msg_of_def assistant_msg_of_def)
qed

end
